theory Spec2Isabelle
  imports Complex_Main
begin

section \<open>Conventions of the embedding\<close>

text \<open>
  The Go sources embedded here are \<^verbatim>\<open>internal/types/types.go\<close>,
  \<^verbatim>\<open>internal/analyzer/analyzer.go\<close>, the complexity and security rules of
  \<^verbatim>\<open>internal/rules\<close>, \<^verbatim>\<open>internal/rules/engine.go\<close> and the standalone
  \<^verbatim>\<open>main.go\<close>.

  \<^item> Go's \<^verbatim>\<open>int\<close> is modelled by \<open>int\<close>. Every integer of the analyzer is a count of
    issues, files, lines or syntax nodes, bounded by the size of the inputs, so the 64-bit
    wrap-around is out of reach and is not written out.
  \<^item> Go's \<^verbatim>\<open>float64\<close> is modelled by \<open>real\<close>: \<^verbatim>\<open>float64(n)\<close> is \<open>real_of_int n\<close> and the
    arithmetic is exact. Comparisons of finite floats are the comparisons of the reals they
    denote; rounding of quotients is not modelled.
  \<^item> A Go \<^verbatim>\<open>string\<close> is a byte sequence, here \<open>string\<close> (a list of 8-bit characters).
  \<^item> Everything the analyzer obtains from outside (the directory walk, the bytes of a file,
    the result of the Go parser, the regular-expression matcher, the lower-casing of
    strings, the glob matcher, the clock) is an explicit input of the model.
  \<^item> Text written to standard output in verbose mode is not modelled.
\<close>

section \<open>Strings\<close>

text \<open>\<^verbatim>\<open>strings.HasPrefix(s, prefix)\<close>.\<close>

fun HasPrefix :: "string \<Rightarrow> string \<Rightarrow> bool" where
  "HasPrefix s [] = True"
| "HasPrefix [] (p # ps) = False"
| "HasPrefix (c # cs) (p # ps) = (c = p \<and> HasPrefix cs ps)"

text \<open>\<^verbatim>\<open>strings.HasSuffix(s, suffix)\<close>.\<close>

definition HasSuffix :: "string \<Rightarrow> string \<Rightarrow> bool" where
  "HasSuffix s suffix = HasPrefix (rev s) (rev suffix)"

text \<open>\<^verbatim>\<open>strings.Contains(s, substr)\<close>: \<open>substr\<close> occurs at some offset of \<open>s\<close>.\<close>

fun Contains :: "string \<Rightarrow> string \<Rightarrow> bool" where
  "Contains [] substr = (substr = [])"
| "Contains (c # cs) substr = (HasPrefix (c # cs) substr \<or> Contains cs substr)"

text \<open>
  \<^verbatim>\<open>strings.Split(content, "\n")\<close>: the pieces between line feeds; the result is never
  empty (the empty string splits into one empty piece).
\<close>

fun Split :: "string \<Rightarrow> string list" where
  "Split [] = [[]]"
| "Split (c # cs) =
     (if c = CHR 0x0A then [] # Split cs
      else (case Split cs of [] \<Rightarrow> [[c]] | l # ls \<Rightarrow> (c # l) # ls))"

text \<open>
  \<^verbatim>\<open>strings.ToLower\<close> belongs to the Go library and maps the upper-case letters of all
  of Unicode; like the regular-expression matcher it is a parameter of the security rule
  below. \<open>asciiToLower\<close> is what it computes on ASCII text, and serves for the example
  inputs only.
\<close>

definition lowerChar :: "char \<Rightarrow> char" where
  "lowerChar c =
     (let n = (of_char c :: nat) in if 65 \<le> n \<and> n \<le> 90 then char_of (n + 32) else c)"

definition asciiToLower :: "string \<Rightarrow> string" where
  "asciiToLower s = map lowerChar s"

section \<open>Data model (\<^verbatim>\<open>internal/types/types.go\<close>)\<close>

record issueImpact =
  EffortMinutes :: int

record issue =
  Type :: string
  Severity :: string
  File :: string
  Line :: int
  Column :: int
  Message :: string
  Rule :: string
  Description :: string
  Category :: string
  Priority :: string
  Impact :: issueImpact

abbreviation SeverityLow :: string where "SeverityLow \<equiv> ''low''"
abbreviation SeverityMedium :: string where "SeverityMedium \<equiv> ''medium''"
abbreviation SeverityHigh :: string where "SeverityHigh \<equiv> ''high''"

abbreviation TypeBug :: string where "TypeBug \<equiv> ''bug''"
abbreviation TypeVulnerability :: string where "TypeVulnerability \<equiv> ''vulnerability''"
abbreviation TypeCodeSmell :: string where "TypeCodeSmell \<equiv> ''code_smell''"
abbreviation TypeError :: string where "TypeError \<equiv> ''error''"

record qualityTrends =
  CyclomaticComplexityTrend :: string
  IssuesDensity :: real
  SecurityScore :: real
  MaintainabilityIndex :: real
  TechnicalDebtRatio :: real

record metrics =
  LinesOfCode :: int
  CyclomaticComplexity :: int
  CodeDuplication :: real
  TestCoverage :: real
  TechnicalDebt :: string
  Maintainability :: string
  Reliability :: string
  Security :: string

text \<open>
  The recommendation strings are built by \<^verbatim>\<open>fmt.Sprintf\<close>; each constructor stands for
  one format string and carries the arguments of the format.
\<close>

datatype recommendation =
  SecurityRecommendation int
| BugRecommendation int
| CoverageRecommendation real
| ExcellentRecommendation

record report =
  ProjectPath :: string
  Timestamp :: nat
  Grade :: string
  Score :: real
  Issues :: "issue list"
  Metrics :: metrics
  FilesAnalyzed :: int
  IssuesSummary :: "string \<rightharpoonup> int"
  Trends :: qualityTrends
  Recommendations :: "recommendation list"

record analysisOptions =
  optProjectPath :: string
  OutputFile :: string
  CoverageFile :: string
  DiffTarget :: string
  ConfigFile :: string
  ExcludeFiles :: "string list"
  IncludeTests :: bool
  Verbose :: bool

text \<open>The zero values \<^verbatim>\<open>types.Metrics{}\<close> and \<^verbatim>\<open>types.QualityTrends{}\<close>.\<close>

definition zeroMetrics :: metrics where
  "zeroMetrics =
     \<lparr>LinesOfCode = 0, CyclomaticComplexity = 0, CodeDuplication = 0, TestCoverage = 0,
      TechnicalDebt = [], Maintainability = [], Reliability = [], Security = []\<rparr>"

definition zeroTrends :: qualityTrends where
  "zeroTrends =
     \<lparr>CyclomaticComplexityTrend = [], IssuesDensity = 0, SecurityScore = 0,
      MaintainabilityIndex = 0, TechnicalDebtRatio = 0\<rparr>"

text \<open>
  Reading a \<^verbatim>\<open>map[string]int\<close>: a key that is absent reads as 0.
  \<^verbatim>\<open>m[k]++\<close> stores the value read plus one.
\<close>

definition mapAt :: "(string \<rightharpoonup> int) \<Rightarrow> string \<Rightarrow> int" where
  "mapAt m k = (case m k of None \<Rightarrow> 0 | Some v \<Rightarrow> v)"

definition incr :: "(string \<rightharpoonup> int) \<Rightarrow> string \<Rightarrow> (string \<rightharpoonup> int)" where
  "incr m k = m(k \<mapsto> mapAt m k + 1)"

section \<open>Syntax trees (\<^verbatim>\<open>go/ast\<close>)\<close>

text \<open>
  The syntax tree is produced by the Go parser and is an input here. Only what the
  analyzer inspects is kept: the kind of a node, its position as resolved by the file
  set, and its children in the order in which \<^verbatim>\<open>ast.Inspect\<close> visits them. As in
  \<^verbatim>\<open>go/ast\<close>, a function declaration is a declaration of the file and cannot occur
  below a statement or an expression; function literals are ordinary nodes.
\<close>

datatype nodeKind =
  IfStmt | ForStmt | RangeStmt | SwitchStmt | TypeSwitchStmt | SelectStmt | CaseClause
| OtherNode

datatype position = Position (posLine: int) (posColumn: int)

datatype node = Node (kind: nodeKind) (pos: position) (children: "node list")

text \<open>
  \<^verbatim>\<open>*ast.FuncDecl\<close>: the name (absent when \<^verbatim>\<open>fn.Name == nil\<close>), the position of the
  declaration, the nodes of its documentation, receiver, name and signature, and the body
  (absent when \<^verbatim>\<open>fn.Body == nil\<close>) with the positions of its braces and its statements.
  The block node of the body is none of the kinds that the callbacks look for, so the
  traversal is modelled as going from the declaration to the statements.
\<close>

datatype block = Block (Lbrace: position) (Rbrace: position) (stmts: "node list")

datatype decl =
  FuncDecl (fnName: "string option") (fnPos: position) (fnSig: "node list")
    (fnBody: "block option")
| GenDecl (genPos: position) (genNodes: "node list")

datatype astFile = AstFile (fileHead: "node list") (Decls: "decl list")

text \<open>
  \<^verbatim>\<open>ast.Inspect(n, f)\<close> for a callback that always returns \<^verbatim>\<open>true\<close> and updates a
  captured variable: \<open>f\<close> is applied to the node, then the children are inspected from
  left to right. (The closing call \<^verbatim>\<open>f(nil)\<close> matches no case of the callbacks below.)
\<close>

fun Inspect :: "(node \<Rightarrow> 'a \<Rightarrow> 'a) \<Rightarrow> node \<Rightarrow> 'a \<Rightarrow> 'a" where
  "Inspect f (Node k p cs) acc = fold (Inspect f) cs (f (Node k p cs) acc)"

text \<open>The nodes below a declaration, in the order of the traversal.\<close>

fun declNodes :: "decl \<Rightarrow> node list" where
  "declNodes (FuncDecl name p sig body) =
     sig @ (case body of None \<Rightarrow> [] | Some b \<Rightarrow> stmts b)"
| "declNodes (GenDecl p ns) = ns"

text \<open>
  The type switch shared by \<^verbatim>\<open>calculateComplexity\<close> and
  \<^verbatim>\<open>calculateFileComplexity\<close> on a statement or expression node:
  \<^verbatim>\<open>case *ast.IfStmt, *ast.ForStmt, *ast.RangeStmt, *ast.SwitchStmt, *ast.TypeSwitchStmt,
  *ast.SelectStmt: complexity++\<close> and \<^verbatim>\<open>case *ast.CaseClause: complexity++\<close>.
\<close>

definition countNode :: "node \<Rightarrow> int \<Rightarrow> int" where
  "countNode n complexity =
     (case kind n of
        IfStmt \<Rightarrow> complexity + 1
      | ForStmt \<Rightarrow> complexity + 1
      | RangeStmt \<Rightarrow> complexity + 1
      | SwitchStmt \<Rightarrow> complexity + 1
      | TypeSwitchStmt \<Rightarrow> complexity + 1
      | SelectStmt \<Rightarrow> complexity + 1
      | CaseClause \<Rightarrow> complexity + 1
      | OtherNode \<Rightarrow> complexity)"

section \<open>The complexity rule (\<^verbatim>\<open>ComplexityRule\<close>, package \<^verbatim>\<open>rules\<close>)\<close>

text \<open>
  \<^verbatim>\<open>ComplexityRule.calculateComplexity(fn)\<close>: starts at 1 and inspects the declaration.
  The declaration node itself matches no case.
\<close>

definition calculateComplexity :: "decl \<Rightarrow> int" where
  "calculateComplexity fn = fold (Inspect countNode) (declNodes fn) 1"

text \<open>
  \<^verbatim>\<open>ComplexityRule.calculateIndentLevel(line)\<close>: the loop over the characters of the line,
  with the running \<^verbatim>\<open>indentLevel\<close> as accumulator. A tab adds one. A space adds one and,
  when the sum is a multiple of 4, replaces it by its quarter. Any other character leaves
  the loop. The level is never negative, so Go's truncating \<^verbatim>\<open>%\<close> and \<^verbatim>\<open>/\<close> are
  \<open>mod\<close> and \<open>div\<close>.
\<close>

fun indentLoop :: "string \<Rightarrow> int \<Rightarrow> int" where
  "indentLoop [] indentLevel = indentLevel"
| "indentLoop (c # cs) indentLevel =
     (if c = CHR 0x09 then indentLoop cs (indentLevel + 1)
      else if c = CHR '' '' then
        indentLoop cs
          (if (indentLevel + 1) mod 4 = 0 then (indentLevel + 1) div 4 else indentLevel + 1)
      else indentLevel)"

definition calculateIndentLevel :: "string \<Rightarrow> int" where
  "calculateIndentLevel line = indentLoop line 0"

text \<open>
  The decimal numeral that \<^verbatim>\<open>%d\<close> prints. The first argument of \<open>digitsOf\<close> bounds
  the number of digits; a number has at most as many digits as its value plus one.
\<close>

fun digitsOf :: "nat \<Rightarrow> nat \<Rightarrow> string" where
  "digitsOf 0 n = []"
| "digitsOf (Suc fuel) n =
     (if n < 10 then [char_of (48 + n)]
      else digitsOf fuel (n div 10) @ [char_of (48 + n mod 10)])"

definition Itoa :: "int \<Rightarrow> string" where
  "Itoa i = (if i < 0 then CHR ''-'' # digitsOf (Suc (nat (- i))) (nat (- i))
             else digitsOf (Suc (nat i)) (nat i))"

text \<open>
  \<^verbatim>\<open>ComplexityRule.checkDeepNesting(file, stmt, content, fset)\<close>. The result is \<open>None\<close>
  where Go panics: the guard \<^verbatim>\<open>pos.Line-1 < len(lines)\<close> lets a line number below 1
  through to \<^verbatim>\<open>lines[pos.Line-1]\<close>. The description is
  \<^verbatim>\<open>fmt.Sprintf("Code is nested %d levels deep (threshold: 4)", indentLevel)\<close>, built
  by \<open>nestingDescription\<close>.
\<close>

definition nestingDescription :: "int \<Rightarrow> string" where
  "nestingDescription indentLevel =
     ''Code is nested '' @ Itoa indentLevel @ '' levels deep (threshold: 4)''"

definition checkDeepNesting :: "string \<Rightarrow> node \<Rightarrow> string \<Rightarrow> issue list option" where
  "checkDeepNesting file stmt content =
     (let p = pos stmt; lines = Split content in
      if posLine p - 1 < int (length lines) then
        (if posLine p - 1 < 0 then None
         else
           (let line = lines ! nat (posLine p - 1);
                indentLevel = calculateIndentLevel line
            in if indentLevel > 4 then
                 Some [\<lparr>Type = TypeCodeSmell, Severity = SeverityMedium, File = file,
                        Line = posLine p, Column = posColumn p,
                        Message = ''Deep nesting detected'', Rule = ''deep_nesting'',
                        Description = nestingDescription indentLevel,
                        Category = [], Priority = [],
                        Impact = \<lparr>EffortMinutes = 5\<rparr>\<rparr>]
               else Some []))
      else Some [])"

section \<open>The security rule (\<^verbatim>\<open>SecurityRule\<close>, package \<^verbatim>\<open>rules\<close>)\<close>

text \<open>
  \<^verbatim>\<open>regexp.MatchString(pattern, line)\<close> belongs to the Go library and is a parameter:
  a \<open>matcher\<close> applied to a pattern and a line says whether the call returns
  \<^verbatim>\<open>matched == true\<close> with \<^verbatim>\<open>err == nil\<close>. The patterns are the source's raw string
  literals, byte for byte; \<open>BS\<close> is the backslash and \<open>QQ\<close> the two quote characters
  \<^verbatim>\<open>"'\<close>. In the same way the argument \<open>ToLower\<close> of the definitions below stands
  for \<^verbatim>\<open>strings.ToLower\<close>.
\<close>

type_synonym matcher = "string \<Rightarrow> string \<Rightarrow> bool"

abbreviation BS :: string where "BS \<equiv> [CHR 0x5C]"
abbreviation QQ :: string where "QQ \<equiv> [CHR 0x22, CHR 0x27]"

definition secretPatterns :: "(string \<times> string \<times> string) list" where
  "secretPatterns =
     [(''(?i)password'' @ BS @ ''s*[:=]'' @ BS @ ''s*['' @ QQ @ ''][^'' @ QQ @ '']{3,}['' @ QQ @ '']'',
       ''Hardcoded password'', SeverityHigh),
      (''(?i)secret'' @ BS @ ''s*[:=]'' @ BS @ ''s*['' @ QQ @ ''][^'' @ QQ @ '']{8,}['' @ QQ @ '']'',
       ''Hardcoded secret'', SeverityHigh),
      (''(?i)api[_-]?key'' @ BS @ ''s*[:=]'' @ BS @ ''s*['' @ QQ @ ''][^'' @ QQ @ '']{8,}['' @ QQ @ '']'',
       ''Hardcoded API key'', SeverityHigh),
      (''(?i)token'' @ BS @ ''s*[:=]'' @ BS @ ''s*['' @ QQ @ ''][^'' @ QQ @ '']{16,}['' @ QQ @ '']'',
       ''Hardcoded token'', SeverityHigh),
      (''(?i)aws[_-]?access[_-]?key'' @ BS @ ''s*[:=]'' @ BS @ ''s*['' @ QQ @ ''][^'' @ QQ @ '']+['' @ QQ @ '']'',
       ''AWS access key'', SeverityHigh),
      (''(?i)private[_-]?key'' @ BS @ ''s*[:=]'' @ BS @ ''s*['' @ QQ @ ''][^'' @ QQ @ '']+['' @ QQ @ '']'',
       ''Private key'', SeverityHigh)]"

definition sqlPatterns :: "string list" where
  "sqlPatterns =
     [''(?i)query'' @ BS @ ''s*[:=]'' @ BS @ ''s*['' @ QQ @ ''].*%[sv].*['' @ QQ @ '']'',
      ''(?i)fmt'' @ BS @ ''.Sprintf'' @ BS @ ''s*'' @ BS @ ''('' @ BS @ ''s*['' @ QQ @ ''].*SELECT.*%[sv].*['' @ QQ @ '']'',
      ''(?i)fmt'' @ BS @ ''.Sprintf'' @ BS @ ''s*'' @ BS @ ''('' @ BS @ ''s*['' @ QQ @ ''].*INSERT.*%[sv].*['' @ QQ @ '']'',
      ''(?i)fmt'' @ BS @ ''.Sprintf'' @ BS @ ''s*'' @ BS @ ''('' @ BS @ ''s*['' @ QQ @ ''].*UPDATE.*%[sv].*['' @ QQ @ '']'',
      ''(?i)fmt'' @ BS @ ''.Sprintf'' @ BS @ ''s*'' @ BS @ ''('' @ BS @ ''s*['' @ QQ @ ''].*DELETE.*%[sv].*['' @ QQ @ '']'',
      ''(?i)['' @ QQ @ ''].*SELECT.*'' @ BS @ ''+.*['' @ QQ @ '']'',
      ''(?i)['' @ QQ @ ''].*INSERT.*'' @ BS @ ''+.*['' @ QQ @ '']'']"

definition falsePositives :: "string list" where
  "falsePositives =
     [''password=\"\"'',
      ''password='' @ [CHR 0x27, CHR 0x27],
      ''secret=\"\"'',
      ''secret='' @ [CHR 0x27, CHR 0x27],
      ''token=\"\"'',
      ''token='' @ [CHR 0x27, CHR 0x27],
      ''password=\"placeholder\"'',
      ''password=\"example\"'',
      ''password=\"test\"'',
      ''password=\"dummy\"'',
      ''secret=\"placeholder\"'',
      ''api_key=\"your_key_here\"'',
      ''token=\"your_token_here\"'']"

text \<open>\<^verbatim>\<open>SecurityRule.isFalsePositive(line)\<close>.\<close>

definition isFalsePositive :: "(string \<Rightarrow> string) \<Rightarrow> string \<Rightarrow> bool" where
  "isFalsePositive ToLower line =
     (let lowerLine = ToLower line in
      if list_ex (\<lambda>fp. Contains lowerLine fp) falsePositives then True
      else if Contains line ''//'' \<or> Contains line ''/*'' then True
      else False)"

text \<open>\<^verbatim>\<open>SecurityRule.checkHardcodedSecrets(file, lineNum, line)\<close>.\<close>

definition secretIssue :: "string \<Rightarrow> int \<Rightarrow> string \<Rightarrow> string \<Rightarrow> issue" where
  "secretIssue file lineNum description severity =
     \<lparr>Type = TypeVulnerability, Severity = severity, File = file, Line = lineNum, Column = 1,
      Message = description, Rule = ''hardcoded_secret'',
      Description =
        ''Hardcoded secrets should be moved to environment variables or secure configuration'',
      Category = [], Priority = [], Impact = \<lparr>EffortMinutes = 10\<rparr>\<rparr>"

definition checkHardcodedSecrets ::
  "matcher \<Rightarrow> (string \<Rightarrow> string) \<Rightarrow> string \<Rightarrow> int \<Rightarrow> string \<Rightarrow> issue list" where
  "checkHardcodedSecrets MatchString ToLower file lineNum line =
     concat (map (\<lambda>(pattern, description, severity).
        if MatchString pattern line then
          (if \<not> isFalsePositive ToLower line then [secretIssue file lineNum description severity]
           else [])
        else []) secretPatterns)"

text \<open>\<^verbatim>\<open>SecurityRule.checkSQLInjection(file, lineNum, line)\<close>.\<close>

definition sqlIssue :: "string \<Rightarrow> int \<Rightarrow> issue" where
  "sqlIssue file lineNum =
     \<lparr>Type = TypeVulnerability, Severity = SeverityHigh, File = file, Line = lineNum,
      Column = 1, Message = ''Potential SQL injection'', Rule = ''sql_injection'',
      Description = ''Use parameterized queries to prevent SQL injection attacks'',
      Category = [], Priority = [], Impact = \<lparr>EffortMinutes = 15\<rparr>\<rparr>"

definition checkSQLInjection :: "matcher \<Rightarrow> string \<Rightarrow> int \<Rightarrow> string \<Rightarrow> issue list" where
  "checkSQLInjection MatchString file lineNum line =
     concat (map (\<lambda>pattern.
        if MatchString pattern line then [sqlIssue file lineNum] else []) sqlPatterns)"

text \<open>
  \<^verbatim>\<open>SecurityRule.Check\<close>: every line of the content, numbered from 1, goes through both
  checks. The syntax tree is not used.
\<close>

definition SecurityRule_Check ::
  "matcher \<Rightarrow> (string \<Rightarrow> string) \<Rightarrow> string \<Rightarrow> astFile \<Rightarrow> string \<Rightarrow> issue list" where
  "SecurityRule_Check MatchString ToLower file node content =
     concat (map (\<lambda>(i, line).
        checkHardcodedSecrets MatchString ToLower file (int i + 1) line
        @ checkSQLInjection MatchString file (int i + 1) line)
       (enumerate 0 (Split content)))"

section \<open>The rule engine (\<^verbatim>\<open>internal/rules/engine.go\<close>)\<close>

text \<open>
  A rule is its \<^verbatim>\<open>Check\<close> method, a function of the file path, the syntax tree and the
  content (positions are part of the tree here). The engine holds the registered rules
  in order.
\<close>

type_synonym rule = "string \<Rightarrow> astFile \<Rightarrow> string \<Rightarrow> issue list"

record engine =
  rules :: "rule list"

definition RegisterRule :: "engine \<Rightarrow> rule \<Rightarrow> engine" where
  "RegisterRule e r = e\<lparr>rules := rules e @ [r]\<rparr>"

definition AnalyzeFile :: "engine \<Rightarrow> string \<Rightarrow> astFile \<Rightarrow> string \<Rightarrow> issue list" where
  "AnalyzeFile e filePath node content =
     concat (map (\<lambda>r. r filePath node content) (rules e))"

section \<open>The project analyzer (\<^verbatim>\<open>internal/analyzer/analyzer.go\<close>)\<close>

text \<open>
  The state of a scan. The standalone analyzer of \<^verbatim>\<open>main.go\<close> has the fields
  \<open>issues\<close>, \<open>metrics\<close> and \<open>filesCount\<close>; the analyzer of the package adds the
  options and the rule engine. (The file set only resolves positions, which the syntax
  trees carry here.)
\<close>

record standaloneAnalyzer =
  issues :: "issue list"
  metrics :: metrics
  filesCount :: int

record codeAnalyzer = standaloneAnalyzer +
  options :: analysisOptions
  ruleEngine :: engine

text \<open>
  \<^verbatim>\<open>New(options)\<close>. The engine that Go builds with \<^verbatim>\<open>rules.NewEngine()\<close> is
  an argument, since only two of the six default rules are embedded here.
\<close>

definition New :: "analysisOptions \<Rightarrow> engine \<Rightarrow> codeAnalyzer" where
  "New opts eng =
     \<lparr>issues = [], metrics = zeroMetrics, filesCount = 0, options = opts, ruleEngine = eng\<rparr>"

text \<open>
  What the environment answers for one file: \<^verbatim>\<open>os.ReadFile\<close> fails with an error
  text; or it returns the content and \<^verbatim>\<open>parser.ParseFile\<close> fails with an error text;
  or the content parses to a syntax tree.
\<close>

datatype fileOutcome =
  ReadFailed string
| ParseFailed string string
| Parsed string astFile

definition addIssue :: "codeAnalyzer \<Rightarrow> issue \<Rightarrow> codeAnalyzer" where
  "addIssue ca i = ca\<lparr>issues := issues ca @ [i]\<rparr>"

definition getIssuesSummary :: "codeAnalyzer \<Rightarrow> (string \<rightharpoonup> int)" where
  "getIssuesSummary ca =
     fold (\<lambda>i summary. incr (incr summary (Severity i)) (Type i)) (issues ca) Map.empty"

definition calculateScore :: "codeAnalyzer \<Rightarrow> real" where
  "calculateScore ca =
     (if filesCount ca = 0 then 0
      else
        (let baseScore = 100;
             summary = getIssuesSummary ca;
             score0 = baseScore - real_of_int (mapAt summary SeverityHigh * 10)
                      - real_of_int (mapAt summary SeverityMedium * 5)
                      - real_of_int (mapAt summary SeverityLow * 1);
             score1 =
               (if filesCount ca > 0 then
                  (let avgComplexity =
                         real_of_int (CyclomaticComplexity (metrics ca))
                         / real_of_int (filesCount ca)
                   in if avgComplexity > 10 then score0 - (avgComplexity - 10) * 2
                      else score0)
                else score0);
             score2 = (if score1 < 0 then 0 else score1);
             score3 = (if score2 > 100 then 100 else score2)
         in score3))"

definition calculateGrade :: "real \<Rightarrow> string" where
  "calculateGrade score =
     (if score \<ge> 90 then ''A''
      else if score \<ge> 80 then ''B''
      else if score \<ge> 70 then ''C''
      else if score \<ge> 60 then ''D''
      else ''F'')"

definition complexityTrend :: "real \<Rightarrow> string" where
  "complexityTrend avgComplexity =
     (if avgComplexity > 15 then ''Very High - Immediate refactoring needed''
      else if avgComplexity > 10 then ''High - Consider refactoring''
      else if avgComplexity > 5 then ''Moderate - Monitor closely''
      else ''Good - Well structured code'')"

text \<open>
  \<^verbatim>\<open>calculateQualityTrends\<close>. The maintainability deduction reads
  \<^verbatim>\<open>summary["missing_documentation"]\<close>, an entry of the summary of severities and types.
\<close>

definition calculateQualityTrends :: "codeAnalyzer \<Rightarrow> qualityTrends" where
  "calculateQualityTrends ca =
     (let trends = zeroTrends;
          summary = getIssuesSummary ca
      in if filesCount ca > 0 then
           (let avgComplexity =
                  real_of_int (CyclomaticComplexity (metrics ca)) / real_of_int (filesCount ca);
                securityIssues = mapAt summary TypeVulnerability;
                maintainabilityDeductions =
                  real_of_int (securityIssues * 5 + mapAt summary ''missing_documentation'' * 2);
                totalDebtMinutes = sum_list (map (\<lambda>i. EffortMinutes (Impact i)) (issues ca))
            in trends
               \<lparr>CyclomaticComplexityTrend := complexityTrend avgComplexity,
                IssuesDensity :=
                  (if LinesOfCode (metrics ca) > 0 then
                     real_of_int (int (length (issues ca)))
                     / real_of_int (LinesOfCode (metrics ca)) * 1000
                   else IssuesDensity trends),
                SecurityScore := max 0 (100 - real_of_int (securityIssues * 10)),
                MaintainabilityIndex := max 0 (100 - maintainabilityDeductions),
                TechnicalDebtRatio :=
                  (if LinesOfCode (metrics ca) > 0 then
                     real_of_int totalDebtMinutes / 60
                     / real_of_int (LinesOfCode (metrics ca)) * 1000
                   else TechnicalDebtRatio trends)\<rparr>)
         else trends)"

definition generateRecommendations :: "codeAnalyzer \<Rightarrow> recommendation list" where
  "generateRecommendations ca =
     (let summary = getIssuesSummary ca;
          vulnCount = mapAt summary TypeVulnerability;
          bugCount = mapAt summary TypeBug;
          recommendations =
            (if vulnCount > 0 then [SecurityRecommendation vulnCount] else [])
            @ (if bugCount > 0 then [BugRecommendation bugCount] else [])
            @ (if TestCoverage (metrics ca) < 70
               then [CoverageRecommendation (TestCoverage (metrics ca))] else [])
      in if length recommendations = 0 then [ExcellentRecommendation] else recommendations)"

text \<open>
  \<^verbatim>\<open>calculateFileComplexity(node)\<close>: one traversal of the whole file, counting the
  branching nodes, the case clauses and, with \<^verbatim>\<open>case *ast.FuncDecl: complexity++\<close>,
  the function declarations. The file node and a general declaration match no case.
\<close>

definition calculateFileComplexity :: "astFile \<Rightarrow> int" where
  "calculateFileComplexity node =
     fold (\<lambda>d complexity.
             fold (Inspect countNode) (declNodes d)
               (case d of FuncDecl name p sig body \<Rightarrow> complexity + 1
                        | GenDecl p ns \<Rightarrow> complexity))
          (Decls node)
          (fold (Inspect countNode) (fileHead node) 0)"

definition updateMetrics :: "codeAnalyzer \<Rightarrow> string \<Rightarrow> astFile \<Rightarrow> codeAnalyzer" where
  "updateMetrics ca content node =
     (let lines = Split content;
          complexity = calculateFileComplexity node;
          m = metrics ca;
          m1 = m\<lparr>LinesOfCode := LinesOfCode m + int (length lines)\<rparr>;
          m2 = m1\<lparr>CyclomaticComplexity := CyclomaticComplexity m1 + complexity\<rparr>;
          m3 = (if Contains content ''func Test'' then
                  m2\<lparr>TestCoverage :=
                       real_of_int (filesCount ca) / real_of_int (max (filesCount ca) 1) * 100\<rparr>
                else m2)
      in ca\<lparr>metrics := m3\<rparr>)"

definition readErrorIssue :: "string \<Rightarrow> string \<Rightarrow> issue" where
  "readErrorIssue filePath err =
     \<lparr>Type = TypeError, Severity = SeverityHigh, File = filePath, Line = 1, Column = 1,
      Message = ''Cannot read file'', Rule = ''read_error'',
      Description = ''Error reading file: '' @ err,
      Category = [], Priority = [], Impact = \<lparr>EffortMinutes = 1\<rparr>\<rparr>"

definition parseErrorIssue :: "string \<Rightarrow> string \<Rightarrow> issue" where
  "parseErrorIssue filePath err =
     \<lparr>Type = TypeError, Severity = SeverityHigh, File = filePath, Line = 1, Column = 1,
      Message = ''Syntax error'', Rule = ''parse_error'',
      Description = ''Parse error: '' @ err,
      Category = [], Priority = [], Impact = \<lparr>EffortMinutes = 1\<rparr>\<rparr>"

text \<open>\<^verbatim>\<open>analyzeFile(filePath)\<close>, with the answer of the environment for that path.\<close>

definition analyzeFile :: "codeAnalyzer \<Rightarrow> string \<Rightarrow> fileOutcome \<Rightarrow> codeAnalyzer" where
  "analyzeFile ca filePath outcome =
     (let ca1 = ca\<lparr>filesCount := filesCount ca + 1\<rparr> in
      case outcome of
        ReadFailed err \<Rightarrow> addIssue ca1 (readErrorIssue filePath err)
      | ParseFailed content err \<Rightarrow> addIssue ca1 (parseErrorIssue filePath err)
      | Parsed content node \<Rightarrow>
          (let fileIssues = AnalyzeFile (ruleEngine ca1) filePath node content;
               ca2 = ca1\<lparr>issues := issues ca1 @ fileIssues\<rparr>
           in updateMetrics ca2 content node))"

text \<open>
  One call of the callback by \<^verbatim>\<open>filepath.WalkDir\<close>: the path, whether the entry is
  a directory, the error handed to the callback (if any), and the answer of the
  environment should the file be analysed.
\<close>

record walkEntry =
  wPath :: string
  wIsDir :: bool
  wErr :: "string option"
  wOutcome :: fileOutcome

text \<open>
  \<^verbatim>\<open>walkFunc(path, d, err)\<close>; the second component is the error returned. The parameter
  \<open>matchBase exclude path\<close> is the first result of
  \<^verbatim>\<open>filepath.Match(exclude, filepath.Base(path))\<close>.
\<close>

definition walkFunc ::
  "(string \<Rightarrow> string \<Rightarrow> bool) \<Rightarrow> codeAnalyzer \<Rightarrow> walkEntry \<Rightarrow> codeAnalyzer \<times> string option" where
  "walkFunc matchBase ca e =
     (if wErr e \<noteq> None then (ca, wErr e)
      else if wIsDir e \<or> \<not> HasSuffix (wPath e) ''.go'' then (ca, None)
      else if Contains (wPath e) ''vendor/'' \<or> Contains (wPath e) ''.git/'' then (ca, None)
      else if \<not> IncludeTests (options ca) \<and> HasSuffix (wPath e) ''_test.go'' then (ca, None)
      else if list_ex (\<lambda>exclude. matchBase exclude (wPath e)) (ExcludeFiles (options ca))
        then (ca, None)
      else (analyzeFile ca (wPath e) (wOutcome e), None))"

text \<open>
  \<^verbatim>\<open>filepath.WalkDir(root, fn)\<close> over the entries that the file system yields: the
  callback is applied in order, and the first error it returns ends the walk and is the
  result. (The callbacks here never return \<^verbatim>\<open>SkipDir\<close>.)
\<close>

fun WalkDir :: "('s \<Rightarrow> walkEntry \<Rightarrow> 's \<times> string option) \<Rightarrow> walkEntry list \<Rightarrow> 's \<Rightarrow> 's \<times> string option" where
  "WalkDir fn [] ca = (ca, None)"
| "WalkDir fn (e # es) ca =
     (case fn ca e of
        (ca', Some err) \<Rightarrow> (ca', Some err)
      | (ca', None) \<Rightarrow> WalkDir fn es ca')"

text \<open>
  \<^verbatim>\<open>AnalyzeProject()\<close>: \<open>Inl\<close> is the error result, \<open>Inr\<close> the report. \<open>now\<close> is the
  value of \<^verbatim>\<open>time.Now()\<close>.
\<close>

definition AnalyzeProject ::
  "(string \<Rightarrow> string \<Rightarrow> bool) \<Rightarrow> nat \<Rightarrow> codeAnalyzer \<Rightarrow> walkEntry list \<Rightarrow> string + report" where
  "AnalyzeProject matchBase now ca0 walk =
     (case WalkDir (walkFunc matchBase) walk ca0 of
        (ca, Some err) \<Rightarrow> Inl (''error walking directory: '' @ err)
      | (ca, None) \<Rightarrow>
          (let score = calculateScore ca;
               grade = calculateGrade score;
               trends = calculateQualityTrends ca;
               recommendations = generateRecommendations ca
           in Inr \<lparr>ProjectPath = optProjectPath (options ca), Timestamp = now,
                    Grade = grade, Score = score, Issues = issues ca, Metrics = metrics ca,
                    FilesAnalyzed = filesCount ca, IssuesSummary = getIssuesSummary ca,
                    Trends = trends, Recommendations = recommendations\<rparr>))"

section \<open>The standalone analyzer (\<^verbatim>\<open>main.go\<close>)\<close>

text \<open>
  \<^verbatim>\<open>main.go\<close> declares its own \<^verbatim>\<open>Issue\<close> and \<^verbatim>\<open>Metrics\<close>, field for field those of
  the package \<^verbatim>\<open>types\<close>, and a \<^verbatim>\<open>Report\<close> without trends and recommendations.
  Definitions of \<^verbatim>\<open>main.go\<close> carry the suffix \<open>_main\<close>.
\<close>

record report_main =
  ProjectPath_main :: string
  Timestamp_main :: nat
  Grade_main :: string
  Score_main :: real
  Issues_main :: "issue list"
  Metrics_main :: metrics
  FilesAnalyzed_main :: int
  IssuesSummary_main :: "string \<rightharpoonup> int"

definition NewCodeAnalyzer_main :: standaloneAnalyzer where
  "NewCodeAnalyzer_main = \<lparr>issues = [], metrics = zeroMetrics, filesCount = 0\<rparr>"

definition getIssueCountByType_main :: "standaloneAnalyzer \<Rightarrow> string \<Rightarrow> int" where
  "getIssueCountByType_main ca t =
     fold (\<lambda>i count. if Type i = t then count + 1 else count) (issues ca) 0"

definition getIssueCountByRule_main :: "standaloneAnalyzer \<Rightarrow> string \<Rightarrow> int" where
  "getIssueCountByRule_main ca r =
     fold (\<lambda>i count. if Rule i = r then count + 1 else count) (issues ca) 0"

definition addIssue_main :: "standaloneAnalyzer \<Rightarrow> issue \<Rightarrow> standaloneAnalyzer" where
  "addIssue_main ca i = ca\<lparr>issues := issues ca @ [i]\<rparr>"

definition getIssuesSummary_main :: "standaloneAnalyzer \<Rightarrow> (string \<rightharpoonup> int)" where
  "getIssuesSummary_main ca =
     fold (\<lambda>i summary. incr (incr summary (Severity i)) (Type i)) (issues ca) Map.empty"

definition calculateScore_main :: "standaloneAnalyzer \<Rightarrow> real" where
  "calculateScore_main ca =
     (if filesCount ca = 0 then 0
      else
        (let baseScore = 100;
             highIssues = mapAt (getIssuesSummary_main ca) ''high'';
             mediumIssues = mapAt (getIssuesSummary_main ca) ''medium'';
             lowIssues = mapAt (getIssuesSummary_main ca) ''low'';
             score0 = baseScore - real_of_int (highIssues * 10) - real_of_int (mediumIssues * 5)
                      - real_of_int (lowIssues * 1);
             avgComplexity =
               real_of_int (CyclomaticComplexity (metrics ca)) / real_of_int (filesCount ca);
             score1 = (if avgComplexity > 10 then score0 - (avgComplexity - 10) * 2 else score0);
             score2 = (if score1 < 0 then 0 else score1);
             score3 = (if score2 > 100 then 100 else score2)
         in score3))"

definition calculateGrade_main :: "real \<Rightarrow> string" where
  "calculateGrade_main score =
     (if score \<ge> 90 then ''A''
      else if score \<ge> 80 then ''B''
      else if score \<ge> 70 then ''C''
      else if score \<ge> 60 then ''D''
      else ''F'')"

text \<open>
  \<^verbatim>\<open>calculateQualityTrends\<close> of \<^verbatim>\<open>main.go\<close>: the documentation issues are counted by
  rule, with \<^verbatim>\<open>getIssueCountByRule("missing_documentation")\<close>.
\<close>

definition calculateQualityTrends_main :: "standaloneAnalyzer \<Rightarrow> qualityTrends" where
  "calculateQualityTrends_main ca =
     (let trends = zeroTrends
      in if filesCount ca > 0 then
           (let avgComplexity =
                  real_of_int (CyclomaticComplexity (metrics ca)) / real_of_int (filesCount ca);
                securityIssues = getIssueCountByType_main ca ''vulnerability'';
                documentationIssues = getIssueCountByRule_main ca ''missing_documentation'';
                maintainabilityDeductions =
                  real_of_int (securityIssues * 5 + documentationIssues * 2);
                totalDebtMinutes = sum_list (map (\<lambda>i. EffortMinutes (Impact i)) (issues ca))
            in trends
               \<lparr>CyclomaticComplexityTrend := complexityTrend avgComplexity,
                IssuesDensity :=
                  (if LinesOfCode (metrics ca) > 0 then
                     real_of_int (int (length (issues ca)))
                     / real_of_int (LinesOfCode (metrics ca)) * 1000
                   else IssuesDensity trends),
                SecurityScore := max 0 (100 - real_of_int (securityIssues * 10)),
                MaintainabilityIndex := max 0 (100 - maintainabilityDeductions),
                TechnicalDebtRatio :=
                  (if LinesOfCode (metrics ca) > 0 then
                     real_of_int totalDebtMinutes / 60
                     / real_of_int (LinesOfCode (metrics ca)) * 1000
                   else TechnicalDebtRatio trends)\<rparr>)
         else trends)"

definition updateMetrics_main :: "standaloneAnalyzer \<Rightarrow> string \<Rightarrow> astFile \<Rightarrow> standaloneAnalyzer" where
  "updateMetrics_main ca content node =
     (let lines = Split content;
          m = metrics ca;
          m1 = m\<lparr>LinesOfCode := LinesOfCode m + int (length lines)\<rparr>;
          testFiles = (if Contains content ''func Test'' then 1 else 0 :: int);
          m2 = (if filesCount ca > 0 then
                  m1\<lparr>TestCoverage :=
                       real_of_int testFiles / real_of_int (filesCount ca) * 100\<rparr>
                else m1)
      in ca\<lparr>metrics := m2\<rparr>)"

text \<open>
  The two passes that \<^verbatim>\<open>analyzeFile\<close> of \<^verbatim>\<open>main.go\<close> runs on a parsed file,
  \<^verbatim>\<open>analyzeAST(filePath, node, content)\<close> and \<^verbatim>\<open>analyzeFileContent(filePath, content)\<close>,
  are parameters: functions that update the analyzer.
\<close>

record passes_main =
  analyzeAST_main :: "standaloneAnalyzer \<Rightarrow> string \<Rightarrow> astFile \<Rightarrow> string \<Rightarrow> standaloneAnalyzer"
  analyzeFileContent_main :: "standaloneAnalyzer \<Rightarrow> string \<Rightarrow> string \<Rightarrow> standaloneAnalyzer"

definition analyzeFile_main ::
  "passes_main \<Rightarrow> standaloneAnalyzer \<Rightarrow> string \<Rightarrow> fileOutcome \<Rightarrow> standaloneAnalyzer" where
  "analyzeFile_main ps ca filePath outcome =
     (let ca1 = ca\<lparr>filesCount := filesCount ca + 1\<rparr> in
      case outcome of
        ReadFailed err \<Rightarrow> addIssue_main ca1 (readErrorIssue filePath err)
      | ParseFailed content err \<Rightarrow> addIssue_main ca1 (parseErrorIssue filePath err)
      | Parsed content node \<Rightarrow>
          (let ca2 = analyzeAST_main ps ca1 filePath node content;
               ca3 = analyzeFileContent_main ps ca2 filePath content
           in updateMetrics_main ca3 content node))"

text \<open>The callback that \<^verbatim>\<open>AnalyzeProject\<close> of \<^verbatim>\<open>main.go\<close> hands to the walk.\<close>

definition walkFunc_main ::
  "passes_main \<Rightarrow> standaloneAnalyzer \<Rightarrow> walkEntry \<Rightarrow> standaloneAnalyzer \<times> string option" where
  "walkFunc_main ps ca e =
     (if wErr e \<noteq> None then (ca, wErr e)
      else if \<not> wIsDir e \<and> HasSuffix (wPath e) ''.go'' then
        (if \<not> Contains (wPath e) ''vendor/'' \<and> \<not> Contains (wPath e) ''.git/''
         then (analyzeFile_main ps ca (wPath e) (wOutcome e), None)
         else (ca, None))
      else (ca, None))"

text \<open>
  \<^verbatim>\<open>AnalyzeProject(projectPath)\<close> of \<^verbatim>\<open>main.go\<close>. The summary is the fresh map
  \<^verbatim>\<open>make(map[string]int)\<close>; score and grade are the assignments
  \<^verbatim>\<open>report.Score = 100.0\<close> and \<^verbatim>\<open>report.Grade = "A"\<close>.
\<close>

definition AnalyzeProject_main ::
  "passes_main \<Rightarrow> nat \<Rightarrow> standaloneAnalyzer \<Rightarrow> string \<Rightarrow> walkEntry list \<Rightarrow> string + report_main" where
  "AnalyzeProject_main ps now ca0 projectPath walk =
     (case WalkDir (walkFunc_main ps) walk ca0 of
        (ca, Some err) \<Rightarrow> Inl (''error walking directory: '' @ err)
      | (ca, None) \<Rightarrow>
          (let report = \<lparr>ProjectPath_main = projectPath, Timestamp_main = now,
                         Grade_main = [], Score_main = 0, Issues_main = issues ca,
                         Metrics_main = metrics ca, FilesAnalyzed_main = filesCount ca,
                         IssuesSummary_main = Map.empty\<rparr>;
               report1 = report\<lparr>Score_main := 100\<rparr>;
               report2 = report1\<lparr>Grade_main := ''A''\<rparr>
           in Inr report2))"

section \<open>The specification's formulas\<close>

text \<open>
  The counts that the specification speaks of: the number of issues of a list with a given
  severity, with a given type (kind) and with a given rule identifier.
\<close>

definition countSeverity :: "issue list \<Rightarrow> string \<Rightarrow> int" where
  "countSeverity xs s = int (length (filter (\<lambda>i. Severity i = s) xs))"

definition countType :: "issue list \<Rightarrow> string \<Rightarrow> int" where
  "countType xs t = int (length (filter (\<lambda>i. Type i = t) xs))"

definition countRule :: "issue list \<Rightarrow> string \<Rightarrow> int" where
  "countRule xs r = int (length (filter (\<lambda>i. Rule i = r) xs))"

text \<open>
  The invariant of the data model: the severity of an issue is one of the three severity
  labels and its type is one of the four kinds.
\<close>

definition validIssue :: "issue \<Rightarrow> bool" where
  "validIssue i \<longleftrightarrow>
     Severity i \<in> {SeverityLow, SeverityMedium, SeverityHigh} \<and>
     Type i \<in> {TypeBug, TypeVulnerability, TypeCodeSmell, TypeError}"

text \<open>
  A rule respects the data model when every issue it reports, on any file, does; an
  engine does when all its rules do.
\<close>

definition validRule :: "rule \<Rightarrow> bool" where
  "validRule r \<longleftrightarrow> (\<forall>file node content. list_all validIssue (r file node content))"

definition validEngine :: "engine \<Rightarrow> bool" where
  "validEngine e \<longleftrightarrow> list_all validRule (rules e)"

definition clamp :: "real \<Rightarrow> real \<Rightarrow> real \<Rightarrow> real" where
  "clamp x lo hi = (if x < lo then lo else if x > hi then hi else x)"

text \<open>
  The score as the specification writes it, from the issue list, the cumulative
  cyclomatic complexity and the number of files analysed.
\<close>

definition specScore :: "issue list \<Rightarrow> int \<Rightarrow> int \<Rightarrow> real" where
  "specScore xs complexity files =
     (if files = 0 then 0
      else
        (let avg_complexity = real_of_int complexity / real_of_int files;
             complexity_penalty = max 0 (avg_complexity - 10) * 2
         in clamp (100 - 10 * real_of_int (countSeverity xs SeverityHigh)
                       - 5 * real_of_int (countSeverity xs SeverityMedium)
                       - 1 * real_of_int (countSeverity xs SeverityLow)
                       - complexity_penalty) 0 100))"

section \<open>The gate of the walk\<close>

text \<open>
  The entries that \<^verbatim>\<open>walkFunc\<close> passes over without analysing them, read off its
  conditions: directories, files that are not \<^verbatim>\<open>.go\<close> files, paths below
  \<^verbatim>\<open>vendor/\<close> or \<^verbatim>\<open>.git/\<close>, test files when tests are not included, and files whose
  base name matches an exclusion pattern.
\<close>

definition skipped :: "(string \<Rightarrow> string \<Rightarrow> bool) \<Rightarrow> analysisOptions \<Rightarrow> walkEntry \<Rightarrow> bool" where
  "skipped matchBase opts e \<longleftrightarrow>
     wIsDir e \<or> \<not> HasSuffix (wPath e) ''.go''
     \<or> Contains (wPath e) ''vendor/'' \<or> Contains (wPath e) ''.git/''
     \<or> (\<not> IncludeTests opts \<and> HasSuffix (wPath e) ''_test.go'')
     \<or> list_ex (\<lambda>exclude. matchBase exclude (wPath e)) (ExcludeFiles opts)"

section \<open>Example inputs\<close>

text \<open>
  A small project used to run the definitions: a directory with an unreadable file, a
  file with a syntax error, a file that parses and a test file; an engine with the
  security rule and a rule that reports a marker comment; and a walk in which no entry
  is analysed.
\<close>

definition exampleRule :: rule where
  "exampleRule file node content =
     (if Contains content ''TODO'' then
        [\<lparr>Type = TypeCodeSmell, Severity = SeverityLow, File = file, Line = 1, Column = 1,
          Message = ''TODO/FIXME comment'', Rule = ''todo_comment'',
          Description = ''Consider addressing this TODO/FIXME comment'',
          Category = [], Priority = [], Impact = \<lparr>EffortMinutes = 5\<rparr>\<rparr>]
      else [])"

definition exampleOptions :: analysisOptions where
  "exampleOptions =
     \<lparr>optProjectPath = ''proj'', OutputFile = [], CoverageFile = [], DiffTarget = [],
      ConfigFile = [], ExcludeFiles = [''gen_*.go''], IncludeTests = False, Verbose = False\<rparr>"

definition exampleFile :: astFile where
  "exampleFile =
     AstFile [Node OtherNode (Position 1 9) []]
       [FuncDecl (Some ''f'') (Position 2 1) [Node OtherNode (Position 2 6) []]
          (Some (Block (Position 2 10) (Position 2 24)
             [Node IfStmt (Position 2 12) [Node OtherNode (Position 2 15) []]]))]"

definition exampleWalk :: "walkEntry list" where
  "exampleWalk =
     [\<lparr>wPath = ''proj'', wIsDir = True, wErr = None, wOutcome = ReadFailed []\<rparr>,
      \<lparr>wPath = ''proj/a.go'', wIsDir = False, wErr = None,
        wOutcome = ReadFailed ''open proj/a.go: permission denied''\<rparr>,
      \<lparr>wPath = ''proj/b.go'', wIsDir = False, wErr = None,
        wOutcome = ParseFailed ''package'' ''proj/b.go:1:8: expected identifier''\<rparr>,
      \<lparr>wPath = ''proj/c.go'', wIsDir = False, wErr = None,
        wOutcome = Parsed (''package c // TODO'' @ [CHR 0x0A] @ ''func f() { if x {} }'')
                     exampleFile\<rparr>,
      \<lparr>wPath = ''proj/c_test.go'', wIsDir = False, wErr = None,
        wOutcome = ReadFailed ''open proj/c_test.go: permission denied''\<rparr>]"

definition emptyWalk :: "walkEntry list" where
  "emptyWalk =
     [\<lparr>wPath = ''proj'', wIsDir = True, wErr = None, wOutcome = ReadFailed []\<rparr>,
      \<lparr>wPath = ''proj/README.md'', wIsDir = False, wErr = None, wOutcome = ReadFailed []\<rparr>,
      \<lparr>wPath = ''proj/vendor/x.go'', wIsDir = False, wErr = None, wOutcome = ReadFailed []\<rparr>,
      \<lparr>wPath = ''proj/x_test.go'', wIsDir = False, wErr = None, wOutcome = ReadFailed []\<rparr>]"

definition noMatch :: "string \<Rightarrow> string \<Rightarrow> bool" where
  "noMatch pattern path = False"

text \<open>
  A line with a query that holds a format verb and a trailing comment that holds a
  placeholder password, and what \<^verbatim>\<open>regexp.MatchString\<close> answers on it: of the
  patterns of the rule, the password pattern and the first SQL pattern match. On every
  other line the example matcher reports no match.
\<close>

definition exampleLine :: string where
  "exampleLine = ''query = \"SELECT * FROM t WHERE id=%s\" // password=\"test\"''"

definition exampleMatcher :: matcher where
  "exampleMatcher pattern line \<longleftrightarrow>
     line = exampleLine \<and> (pattern = fst (hd secretPatterns) \<or> pattern = hd sqlPatterns)"

definition exampleEngine :: engine where
  "exampleEngine = \<lparr>rules = [SecurityRule_Check exampleMatcher asciiToLower, exampleRule]\<rparr>"

definition exampleIssues :: "issue list" where
  "exampleIssues =
     [readErrorIssue ''proj/a.go'' ''open proj/a.go: permission denied'',
      parseErrorIssue ''proj/b.go'' ''proj/b.go:1:8: expected identifier'',
      \<lparr>Type = TypeCodeSmell, Severity = SeverityLow, File = ''proj/c.go'', Line = 1,
        Column = 1, Message = ''TODO/FIXME comment'', Rule = ''todo_comment'',
        Description = ''Consider addressing this TODO/FIXME comment'',
        Category = [], Priority = [], Impact = \<lparr>EffortMinutes = 5\<rparr>\<rparr>]"

definition exampleFinal :: codeAnalyzer where
  "exampleFinal =
     \<lparr>issues = exampleIssues,
      metrics = zeroMetrics\<lparr>LinesOfCode := 2, CyclomaticComplexity := 2\<rparr>,
      filesCount = 3, options = exampleOptions, ruleEngine = exampleEngine\<rparr>"

text \<open>Passes for the standalone analyzer that report nothing.\<close>

definition examplePasses :: passes_main where
  "examplePasses =
     \<lparr>analyzeAST_main = (\<lambda>ca filePath node content. ca),
      analyzeFileContent_main = (\<lambda>ca filePath content. ca)\<rparr>"

section \<open>Further formulas of the specification\<close>

text \<open>
  The maintainability index as the specification writes it: 100 minus 5 per issue of type
  vulnerability and 2 per issue of rule \<^verbatim>\<open>missing_documentation\<close>, not below 0.
\<close>

definition specMaintainability :: "issue list \<Rightarrow> real" where
  "specMaintainability xs =
     max 0 (100 - 5 * real_of_int (countType xs TypeVulnerability)
                - 2 * real_of_int (countRule xs ''missing_documentation''))"

text \<open>
  The indentation depth as the specification writes it: over the leading white space of a
  line, each tab counts 1 and every 4 consecutive spaces count 1. \<open>run\<close> is the length
  of the current run of spaces.
\<close>

fun specDepthFrom :: "string \<Rightarrow> nat \<Rightarrow> int" where
  "specDepthFrom [] run = int (run div 4)"
| "specDepthFrom (c # cs) run =
     (if c = CHR 0x09 then int (run div 4) + 1 + specDepthFrom cs 0
      else if c = CHR '' '' then specDepthFrom cs (Suc run)
      else int (run div 4))"

definition specIndentDepth :: "string \<Rightarrow> int" where
  "specIndentDepth line = specDepthFrom line 0"

text \<open>
  The nodes of a subtree, and the number of branching nodes (conditional, loop, range,
  switch, type switch and select statements, and case clauses) among the nodes of a list
  of subtrees.
\<close>

fun nodesOf :: "node \<Rightarrow> node list" where
  "nodesOf (Node k p cs) = Node k p cs # concat (map nodesOf cs)"

definition isBranching :: "nodeKind \<Rightarrow> bool" where
  "isBranching k \<longleftrightarrow>
     k = IfStmt \<or> k = ForStmt \<or> k = RangeStmt \<or> k = SwitchStmt \<or> k = TypeSwitchStmt
     \<or> k = SelectStmt \<or> k = CaseClause"

definition branchingCount :: "node list \<Rightarrow> int" where
  "branchingCount ns =
     int (length (filter (\<lambda>n. isBranching (kind n)) (concat (map nodesOf ns))))"

fun isFuncDecl :: "decl \<Rightarrow> bool" where
  "isFuncDecl (FuncDecl name p sig body) = True"
| "isFuncDecl (GenDecl p ns) = False"

text \<open>
  The sum, over the function declarations of a file, of the complexity that the
  complexity rule computes for each.
\<close>

definition perFunctionSum :: "astFile \<Rightarrow> int" where
  "perFunctionSum file = sum_list (map calculateComplexity (filter isFuncDecl (Decls file)))"

text \<open>The branching nodes of a file that lie outside every function declaration.\<close>

definition branchingOutside :: "astFile \<Rightarrow> int" where
  "branchingOutside file =
     branchingCount (fileHead file)
     + sum_list (map (\<lambda>d. branchingCount (declNodes d))
         (filter (\<lambda>d. \<not> isFuncDecl d) (Decls file)))"

section \<open>Further example inputs\<close>

text \<open>
  The issue that the documentation rule reports for an exported function without a
  comment (\<^verbatim>\<open>DocumentationRule.Check\<close>), and the state of an analyzer after the scan of
  the single file \<^verbatim>\<open>package d\n\nfunc Exported() {}\n\<close>, in which that is the only finding.
\<close>

definition missingDocumentationIssue :: "string \<Rightarrow> int \<Rightarrow> issue" where
  "missingDocumentationIssue file l =
     \<lparr>Type = TypeCodeSmell, Severity = SeverityLow, File = file, Line = l, Column = 1,
      Message = ''Missing function documentation'', Rule = ''missing_documentation'',
      Description = ''Exported functions should have documentation comments'',
      Category = [], Priority = [], Impact = \<lparr>EffortMinutes = 3\<rparr>\<rparr>"

definition undocumented :: codeAnalyzer where
  "undocumented =
     \<lparr>issues = [missingDocumentationIssue ''d.go'' 3],
      metrics = zeroMetrics\<lparr>LinesOfCode := 4, CyclomaticComplexity := 1\<rparr>,
      filesCount = 1, options = exampleOptions, ruleEngine = exampleEngine\<rparr>"

definition undocumented_main :: standaloneAnalyzer where
  "undocumented_main =
     \<lparr>issues = [missingDocumentationIssue ''d.go'' 3],
      metrics = zeroMetrics\<lparr>LinesOfCode := 4, CyclomaticComplexity := 1\<rparr>,
      filesCount = 1\<rparr>"

text \<open>
  A conditional nested five levels deep in a file indented with four spaces per level,
  and a conditional behind four tabs and one space.
\<close>

definition spacesLine :: string where
  "spacesLine = ''                    if ok {''"

definition tabsSpaceLine :: string where
  "tabsSpaceLine = [CHR 0x09, CHR 0x09, CHR 0x09, CHR 0x09] @ '' if ok {''"

text \<open>
  The tree of \<^verbatim>\<open>package p\<close>, \<^verbatim>\<open>var f = func(x int) int { if x > 0 { return 1 }; return 0 }\<close>:
  one general declaration whose value is a function literal with a conditional.
\<close>

definition literalFile :: astFile where
  "literalFile =
     AstFile [Node OtherNode (Position 1 9) []]
       [GenDecl (Position 2 1)
          [Node OtherNode (Position 2 5)
             [Node OtherNode (Position 2 5) [],
              Node OtherNode (Position 2 9)
                [Node OtherNode (Position 2 9) [],
                 Node OtherNode (Position 2 25)
                   [Node IfStmt (Position 2 27) [Node OtherNode (Position 2 30) []],
                    Node OtherNode (Position 2 51) []]]]]]"

section \<open>Properties\<close>

subsection \<open>The summary map\<close>

lemma mapAt_incr: "mapAt (incr m k) k' = mapAt m k' + (if k = k' then 1 else 0)"
  by (simp add: mapAt_def incr_def)

lemma mapAt_summary_fold:
  "mapAt (fold (\<lambda>i summary. incr (incr summary (Severity i)) (Type i)) xs m) k
     = mapAt m k + countSeverity xs k + countType xs k"
  by (induction xs arbitrary: m) (simp_all add: mapAt_incr countSeverity_def countType_def)

lemma mapAt_empty: "mapAt Map.empty k = 0"
  by (simp add: mapAt_def)

lemma mapAt_getIssuesSummary:
  "mapAt (getIssuesSummary ca) k = countSeverity (issues ca) k + countType (issues ca) k"
  by (simp add: getIssuesSummary_def mapAt_summary_fold mapAt_empty)

lemma countType_zero: "\<forall>i\<in>set xs. Type i \<noteq> k \<Longrightarrow> countType xs k = 0"
  by (induction xs) (simp_all add: countType_def)

lemma countSeverity_zero: "\<forall>i\<in>set xs. Severity i \<noteq> k \<Longrightarrow> countSeverity xs k = 0"
  by (induction xs) (simp_all add: countSeverity_def)

lemma summary_severity:
  assumes "\<forall>i\<in>set (issues ca). validIssue i"
    and "s \<in> {SeverityLow, SeverityMedium, SeverityHigh}"
  shows "mapAt (getIssuesSummary ca) s = countSeverity (issues ca) s"
proof -
  have "\<forall>i\<in>set (issues ca). Type i \<noteq> s"
    using assms by (auto simp: validIssue_def)
  then show ?thesis
    by (simp add: mapAt_getIssuesSummary countType_zero)
qed

lemma summary_type:
  assumes "\<forall>i\<in>set (issues ca). validIssue i"
    and "t \<in> {TypeBug, TypeVulnerability, TypeCodeSmell, TypeError}"
  shows "mapAt (getIssuesSummary ca) t = countType (issues ca) t"
proof -
  have "\<forall>i\<in>set (issues ca). Severity i \<noteq> t"
    using assms by (auto simp: validIssue_def)
  then show ?thesis
    by (simp add: mapAt_getIssuesSummary countSeverity_zero)
qed

lemma calculateScore_spec:
  assumes "\<forall>i\<in>set (issues ca). validIssue i" and "0 \<le> filesCount ca"
  shows "calculateScore ca
           = specScore (issues ca) (CyclomaticComplexity (metrics ca)) (filesCount ca)"
proof -
  have h: "mapAt (getIssuesSummary ca) SeverityHigh = countSeverity (issues ca) SeverityHigh"
    and m: "mapAt (getIssuesSummary ca) SeverityMedium = countSeverity (issues ca) SeverityMedium"
    and l: "mapAt (getIssuesSummary ca) SeverityLow = countSeverity (issues ca) SeverityLow"
    using assms(1) by (simp_all add: summary_severity)
  show ?thesis
  proof (cases "filesCount ca = 0")
    case True
    then show ?thesis by (simp add: calculateScore_def specScore_def)
  next
    case False
    with assms(2) have pos: "filesCount ca > 0" by simp
    show ?thesis
      using False pos
      by (simp add: calculateScore_def specScore_def Let_def h m l clamp_def max_def)
  qed
qed

subsection \<open>Grades\<close>

text \<open>
  C7. The letter grade depends on the score alone: A from 90, B from 80 and below 90,
  C from 70 and below 80, D from 60 and below 70, F below 60; every band contains its
  lower bound. The function of \<^verbatim>\<open>main.go\<close> is the same function.
\<close>

theorem calculateGrade_bands:
  "(s \<ge> 90 \<longrightarrow> calculateGrade s = ''A'') \<and>
   (80 \<le> s \<and> s < 90 \<longrightarrow> calculateGrade s = ''B'') \<and>
   (70 \<le> s \<and> s < 80 \<longrightarrow> calculateGrade s = ''C'') \<and>
   (60 \<le> s \<and> s < 70 \<longrightarrow> calculateGrade s = ''D'') \<and>
   (s < 60 \<longrightarrow> calculateGrade s = ''F'') \<and>
   calculateGrade_main s = calculateGrade s"
  by (simp add: calculateGrade_def calculateGrade_main_def)

theorem calculateGrade_bands_witness:
  "calculateGrade 100 = ''A'' \<and> calculateGrade 90 = ''A'' \<and> calculateGrade 80 = ''B'' \<and>
   calculateGrade 70 = ''C'' \<and> calculateGrade 60 = ''D'' \<and> calculateGrade 0 = ''F'' \<and>
   calculateGrade_main 90 = ''A''"
  using calculateGrade_bands [of 100] calculateGrade_bands [of 90] calculateGrade_bands [of 80]
    calculateGrade_bands [of 70] calculateGrade_bands [of 60] calculateGrade_bands [of 0]
  by simp

subsection \<open>The walk and the report\<close>

lemma analyzeFile_filesCount: "filesCount (analyzeFile ca p out) = filesCount ca + 1"
  by (cases out) (simp_all add: analyzeFile_def addIssue_def updateMetrics_def Let_def)

lemma walkFunc_filesCount: "filesCount ca \<le> filesCount (fst (walkFunc M ca e))"
  by (simp add: walkFunc_def analyzeFile_filesCount)

lemma WalkDir_filesCount: "filesCount ca \<le> filesCount (fst (WalkDir (walkFunc M) walk ca))"
proof (induction walk arbitrary: ca)
  case Nil
  show ?case by simp
next
  case (Cons e es)
  obtain ca' r where step: "walkFunc M ca e = (ca', r)"
    by (cases "walkFunc M ca e")
  have le: "filesCount ca \<le> filesCount ca'"
    using walkFunc_filesCount [of ca M e] step by simp
  show ?case
  proof (cases r)
    case None
    with step le Cons.IH [of ca'] show ?thesis by simp
  next
    case (Some err)
    with step le show ?thesis by simp
  qed
qed

lemma walkFunc_no_error: "wErr e = None \<Longrightarrow> snd (walkFunc M ca e) = None"
  by (simp add: walkFunc_def)

lemma WalkDir_no_error:
  "\<forall>e\<in>set walk. wErr e = None \<Longrightarrow> snd (WalkDir (walkFunc M) walk ca) = None"
proof (induction walk arbitrary: ca)
  case Nil
  show ?case by simp
next
  case (Cons e es)
  obtain ca' r where step: "walkFunc M ca e = (ca', r)"
    by (cases "walkFunc M ca e")
  have "r = None"
    using walkFunc_no_error [of e M ca] Cons.prems step by simp
  with step Cons show ?case by simp
qed

lemma walkFunc_skipped:
  "wErr e = None \<Longrightarrow> skipped M (options ca) e \<Longrightarrow> walkFunc M ca e = (ca, None)"
  by (auto simp add: walkFunc_def skipped_def)

lemma WalkDir_skipped:
  "\<forall>e\<in>set walk. wErr e = None \<and> skipped M (options ca) e
     \<Longrightarrow> WalkDir (walkFunc M) walk ca = (ca, None)"
  by (induction walk) (simp_all add: walkFunc_skipped)

lemma AnalyzeProject_Inr:
  assumes "AnalyzeProject M now ca0 walk = Inr r"
  shows "\<exists>ca. WalkDir (walkFunc M) walk ca0 = (ca, None) \<and>
           Score r = calculateScore ca \<and> Grade r = calculateGrade (calculateScore ca) \<and>
           Issues r = issues ca \<and> Metrics r = metrics ca \<and> FilesAnalyzed r = filesCount ca \<and>
           IssuesSummary r = getIssuesSummary ca \<and> Trends r = calculateQualityTrends ca"
proof -
  obtain ca res where run: "WalkDir (walkFunc M) walk ca0 = (ca, res)"
    by (cases "WalkDir (walkFunc M) walk ca0")
  with assms have "res = None"
    by (cases res) (simp_all add: AnalyzeProject_def)
  with assms run show ?thesis
    by (auto simp add: AnalyzeProject_def Let_def)
qed

lemma AnalyzeProject_of_run:
  assumes "WalkDir (walkFunc M) walk ca0 = (ca, None)"
  shows "\<exists>r. AnalyzeProject M now ca0 walk = Inr r \<and>
           Score r = calculateScore ca \<and> Grade r = calculateGrade (calculateScore ca) \<and>
           Issues r = issues ca \<and> Metrics r = metrics ca \<and> FilesAnalyzed r = filesCount ca \<and>
           IssuesSummary r = getIssuesSummary ca \<and> Trends r = calculateQualityTrends ca"
  using assms by (simp add: AnalyzeProject_def Let_def)

lemma exampleRun:
  "WalkDir (walkFunc noMatch) exampleWalk (New exampleOptions exampleEngine)
     = (exampleFinal, None)"
  by (simp add: exampleWalk_def walkFunc_def HasSuffix_def New_def exampleOptions_def
      noMatch_def analyzeFile_def addIssue_def Let_def AnalyzeFile_def exampleRule_def
      updateMetrics_def exampleFile_def calculateFileComplexity_def countNode_def
      zeroMetrics_def exampleEngine_def exampleFinal_def exampleIssues_def
      SecurityRule_Check_def checkHardcodedSecrets_def checkSQLInjection_def
      secretPatterns_def sqlPatterns_def exampleMatcher_def exampleLine_def)

subsection \<open>Issues of the data model\<close>

text \<open>
  The issues that the analyzer makes itself and those of the security rule and of the
  nesting check respect the data model; so do all issues of a scan that starts from a
  fresh analyzer whose engine respects it.
\<close>

lemma WalkDir_invariant:
  assumes "\<And>ca e. P ca \<Longrightarrow> P (fst (fn ca e))" and "P ca"
  shows "P (fst (WalkDir fn walk ca))"
  using assms(2)
proof (induction walk arbitrary: ca)
  case Nil
  then show ?case by simp
next
  case (Cons e es)
  obtain ca' r where step: "fn ca e = (ca', r)"
    by (cases "fn ca e")
  have "P ca'"
    using assms(1) [OF Cons.prems, of e] step by simp
  then show ?case
    using step Cons.IH [of ca'] by (cases r) simp_all
qed

lemma AnalyzeFile_valid:
  "validEngine e \<Longrightarrow> list_all validIssue (AnalyzeFile e filePath node content)"
  by (auto simp add: validEngine_def validRule_def AnalyzeFile_def list_all_iff)

lemma errorIssues_valid:
  "validIssue (readErrorIssue p err)" "validIssue (parseErrorIssue p err)"
  by (simp_all add: validIssue_def readErrorIssue_def parseErrorIssue_def)

lemma analyzeFile_valid:
  assumes "list_all validIssue (issues ca) \<and> validEngine (ruleEngine ca)"
  shows "list_all validIssue (issues (analyzeFile ca p out)) \<and>
         validEngine (ruleEngine (analyzeFile ca p out))"
  using assms
  by (cases out)
    (simp_all add: analyzeFile_def addIssue_def updateMetrics_def Let_def errorIssues_valid
      AnalyzeFile_valid)

lemma walkFunc_valid:
  assumes "list_all validIssue (issues ca) \<and> validEngine (ruleEngine ca)"
  shows "list_all validIssue (issues (fst (walkFunc M ca e))) \<and>
         validEngine (ruleEngine (fst (walkFunc M ca e)))"
  using assms analyzeFile_valid [OF assms] by (simp add: walkFunc_def)

lemma WalkDir_valid:
  assumes "validEngine eng"
  shows "list_all validIssue (issues (fst (WalkDir (walkFunc M) walk (New opts eng))))"
proof -
  have "list_all validIssue (issues (New opts eng)) \<and> validEngine (ruleEngine (New opts eng))"
    using assms by (simp add: New_def)
  then have "list_all validIssue (issues (fst (WalkDir (walkFunc M) walk (New opts eng)))) \<and>
             validEngine (ruleEngine (fst (WalkDir (walkFunc M) walk (New opts eng))))"
    by (rule WalkDir_invariant [rotated]) (rule walkFunc_valid)
  then show ?thesis by simp
qed

lemma secretPatterns_high: "\<forall>(pattern, description, severity)\<in>set secretPatterns. severity = SeverityHigh"
  by (simp add: secretPatterns_def)

lemma checkHardcodedSecrets_valid:
  "list_all validIssue (checkHardcodedSecrets M L file n line)"
  using secretPatterns_high
  by (auto simp add: checkHardcodedSecrets_def list_all_iff validIssue_def secretIssue_def
      split: if_splits)

lemma checkSQLInjection_valid:
  "list_all validIssue (checkSQLInjection M file n line)"
  by (auto simp add: checkSQLInjection_def list_all_iff validIssue_def sqlIssue_def
      split: if_splits)

lemma SecurityRule_Check_valid: "validRule (SecurityRule_Check M L)"
  using checkHardcodedSecrets_valid checkSQLInjection_valid
  by (auto simp add: validRule_def SecurityRule_Check_def list_all_iff)

lemma checkDeepNesting_valid:
  "checkDeepNesting file stmt content = Some xs \<Longrightarrow> list_all validIssue xs"
  by (auto simp add: checkDeepNesting_def Let_def validIssue_def split: if_splits)

lemma exampleRule_valid: "validRule exampleRule"
  by (simp add: validRule_def exampleRule_def validIssue_def)

lemma exampleEngine_valid: "validEngine exampleEngine"
  by (simp add: validEngine_def exampleEngine_def exampleRule_valid SecurityRule_Check_valid)

subsection \<open>Score\<close>

text \<open>
  C1. For a project analysis started from a fresh analyzer, the score of the report is
  the clamp to the interval from 0 to 100 of 100 minus 10 per high issue, 5 per medium
  issue, 1 per low issue and the complexity penalty, which is twice the excess of the
  average complexity over 10 (0 when there is no excess); the average is the cumulative
  cyclomatic complexity divided by the number of files analysed, and the score is 0 when
  no file was analysed. The rules of the engine respect the data model: the types of
  their issues are the four kinds, the severities the three labels.
\<close>

theorem score_formula:
  assumes "AnalyzeProject M now (New opts eng) walk = Inr r"
    and "validEngine eng"
  shows "Score r = specScore (Issues r) (CyclomaticComplexity (Metrics r)) (FilesAnalyzed r)"
proof -
  obtain ca where run: "WalkDir (walkFunc M) walk (New opts eng) = (ca, None)"
    and r: "Score r = calculateScore ca" "Issues r = issues ca" "Metrics r = metrics ca"
      "FilesAnalyzed r = filesCount ca"
    using AnalyzeProject_Inr [OF assms(1)] by blast
  have "filesCount (New opts eng) \<le> filesCount (fst (WalkDir (walkFunc M) walk (New opts eng)))"
    by (rule WalkDir_filesCount)
  then have files: "0 \<le> filesCount ca"
    using run by (simp add: New_def)
  have "list_all validIssue (issues ca)"
    using WalkDir_valid [OF assms(2), of M walk opts] run by simp
  then have "\<forall>i\<in>set (issues ca). validIssue i"
    by (simp add: list_all_iff)
  then show ?thesis
    using calculateScore_spec [of ca] files r by simp
qed

theorem score_formula_witness:
  "validEngine exampleEngine \<and>
   (\<exists>r. AnalyzeProject noMatch 0 (New exampleOptions exampleEngine) exampleWalk = Inr r \<and>
        specScore (Issues r) (CyclomaticComplexity (Metrics r)) (FilesAnalyzed r) = 79 \<and>
        Score r = 79)"
proof -
  obtain r where run: "AnalyzeProject noMatch 0 (New exampleOptions exampleEngine) exampleWalk = Inr r"
    and r: "Issues r = issues exampleFinal" "Metrics r = metrics exampleFinal"
      "FilesAnalyzed r = filesCount exampleFinal"
    using AnalyzeProject_of_run [OF exampleRun] by blast
  have spec: "specScore (Issues r) (CyclomaticComplexity (Metrics r)) (FilesAnalyzed r) = 79"
    using r
    by (simp add: exampleFinal_def exampleIssues_def specScore_def countSeverity_def
        readErrorIssue_def parseErrorIssue_def clamp_def zeroMetrics_def)
  have "Score r = 79"
    using score_formula [OF run exampleEngine_valid] spec by simp
  with run spec exampleEngine_valid show ?thesis by blast
qed

subsection \<open>Summary\<close>

text \<open>
  What the analyzer of the package does. In the report of its \<^verbatim>\<open>AnalyzeProject\<close>,
  started from a fresh analyzer whose rules respect the data model, the summary entry of
  each severity label (low, medium, high) is the number of issues of the report with that
  severity, and the summary entry of each kind label (bug, vulnerability, code_smell,
  error) is the number of issues of the report with that type.
\<close>

lemma package_summary_counts:
  assumes "AnalyzeProject M now (New opts eng) walk = Inr r"
    and "validEngine eng"
  shows "(\<forall>s\<in>{SeverityLow, SeverityMedium, SeverityHigh}.
            mapAt (IssuesSummary r) s = countSeverity (Issues r) s) \<and>
         (\<forall>t\<in>{TypeBug, TypeVulnerability, TypeCodeSmell, TypeError}.
            mapAt (IssuesSummary r) t = countType (Issues r) t)"
proof -
  obtain ca where run: "WalkDir (walkFunc M) walk (New opts eng) = (ca, None)"
    and r: "Issues r = issues ca" "IssuesSummary r = getIssuesSummary ca"
    using AnalyzeProject_Inr [OF assms(1)] by blast
  have "list_all validIssue (issues ca)"
    using WalkDir_valid [OF assms(2), of M walk opts] run by simp
  then have valid: "\<forall>i\<in>set (issues ca). validIssue i"
    by (simp add: list_all_iff)
  show ?thesis
    unfolding r using summary_severity [OF valid] summary_type [OF valid] by blast
qed

lemma package_summary_counts_example:
  "validEngine exampleEngine \<and>
   (\<exists>r. AnalyzeProject noMatch 0 (New exampleOptions exampleEngine) exampleWalk = Inr r \<and>
        mapAt (IssuesSummary r) SeverityHigh = 2 \<and> countSeverity (Issues r) SeverityHigh = 2 \<and>
        mapAt (IssuesSummary r) SeverityLow = 1 \<and> countSeverity (Issues r) SeverityLow = 1 \<and>
        mapAt (IssuesSummary r) TypeError = 2 \<and> countType (Issues r) TypeError = 2 \<and>
        mapAt (IssuesSummary r) TypeBug = 0 \<and> countType (Issues r) TypeBug = 0)"
proof -
  obtain r where run: "AnalyzeProject noMatch 0 (New exampleOptions exampleEngine) exampleWalk = Inr r"
    and r: "Issues r = issues exampleFinal"
    using AnalyzeProject_of_run [OF exampleRun] by blast
  have iss: "Issues r = exampleIssues"
    using r by (simp add: exampleFinal_def)
  have counts: "countSeverity (Issues r) SeverityHigh = 2" "countSeverity (Issues r) SeverityLow = 1"
    "countType (Issues r) TypeError = 2" "countType (Issues r) TypeBug = 0"
    unfolding iss
    by (simp_all add: exampleIssues_def countSeverity_def countType_def
        readErrorIssue_def parseErrorIssue_def)
  have "mapAt (IssuesSummary r) SeverityHigh = 2" "mapAt (IssuesSummary r) SeverityLow = 1"
    "mapAt (IssuesSummary r) TypeError = 2" "mapAt (IssuesSummary r) TypeBug = 0"
    using package_summary_counts [OF run exampleEngine_valid] counts by simp_all
  with run counts exampleEngine_valid show ?thesis by blast
qed

subsection \<open>Files that cannot be read or parsed\<close>

text \<open>
  C3. For a file that cannot be read, and for a file that cannot be parsed, the analyzer
  adds one to the file counter, appends exactly one issue of type error and severity high
  with rule read_error (respectively parse_error) and nothing else, so no rule ran, and
  leaves the cumulative metrics as they were. The project analysis does not fail because
  of such files: when the walk hands no error to the callback, the analysis returns a
  report whatever the files answer. The standalone analyzer of \<^verbatim>\<open>main.go\<close> treats the
  two failures in the same way.
\<close>

theorem ingestion_errors:
  "analyzeFile ca p (ReadFailed err)
     = ca\<lparr>issues := issues ca @ [readErrorIssue p err], filesCount := filesCount ca + 1\<rparr> \<and>
   analyzeFile ca p (ParseFailed content err)
     = ca\<lparr>issues := issues ca @ [parseErrorIssue p err], filesCount := filesCount ca + 1\<rparr> \<and>
   metrics (analyzeFile ca p (ReadFailed err)) = metrics ca \<and>
   metrics (analyzeFile ca p (ParseFailed content err)) = metrics ca \<and>
   Type (readErrorIssue p err) = TypeError \<and> Severity (readErrorIssue p err) = SeverityHigh \<and>
   Rule (readErrorIssue p err) = ''read_error'' \<and>
   Type (parseErrorIssue p err) = TypeError \<and> Severity (parseErrorIssue p err) = SeverityHigh \<and>
   Rule (parseErrorIssue p err) = ''parse_error'' \<and>
   analyzeFile_main ps sa p (ReadFailed err)
     = sa\<lparr>issues := issues sa @ [readErrorIssue p err], filesCount := filesCount sa + 1\<rparr> \<and>
   analyzeFile_main ps sa p (ParseFailed content err)
     = sa\<lparr>issues := issues sa @ [parseErrorIssue p err], filesCount := filesCount sa + 1\<rparr> \<and>
   ((\<forall>e\<in>set walk. wErr e = None) \<longrightarrow> (\<exists>r. AnalyzeProject M now ca walk = Inr r))"
proof -
  have "(\<forall>e\<in>set walk. wErr e = None) \<longrightarrow> (\<exists>r. AnalyzeProject M now ca walk = Inr r)"
  proof
    assume "\<forall>e\<in>set walk. wErr e = None"
    then have "snd (WalkDir (walkFunc M) walk ca) = None"
      by (rule WalkDir_no_error)
    then obtain ca' where "WalkDir (walkFunc M) walk ca = (ca', None)"
      by (cases "WalkDir (walkFunc M) walk ca") simp
    then show "\<exists>r. AnalyzeProject M now ca walk = Inr r"
      by (simp add: AnalyzeProject_def Let_def)
  qed
  then show ?thesis
    by (simp add: analyzeFile_def analyzeFile_main_def addIssue_def addIssue_main_def
        readErrorIssue_def parseErrorIssue_def Let_def)
qed

theorem ingestion_errors_witness:
  "list_all (\<lambda>e. wErr e = None) exampleWalk \<and>
   (\<exists>r. AnalyzeProject noMatch 0 (New exampleOptions exampleEngine) exampleWalk = Inr r \<and>
        FilesAnalyzed r = 3 \<and> countType (Issues r) TypeError = 2)"
proof -
  have ok: "\<forall>e\<in>set exampleWalk. wErr e = None"
    by (simp add: exampleWalk_def)
  then obtain r where
    run: "AnalyzeProject noMatch 0 (New exampleOptions exampleEngine) exampleWalk = Inr r"
    using ingestion_errors [of "New exampleOptions exampleEngine" "[]" "[]" "[]" examplePasses
        NewCodeAnalyzer_main exampleWalk noMatch 0]
    by blast
  obtain ca where "WalkDir (walkFunc noMatch) exampleWalk (New exampleOptions exampleEngine) = (ca, None)"
    and r: "Issues r = issues ca" "FilesAnalyzed r = filesCount ca"
    using AnalyzeProject_Inr [OF run] by blast
  then have "ca = exampleFinal"
    using exampleRun by simp
  with r have "FilesAnalyzed r = 3" "countType (Issues r) TypeError = 2"
    by (simp_all add: exampleFinal_def exampleIssues_def countType_def readErrorIssue_def
        parseErrorIssue_def)
  with run ok show ?thesis
    by (auto simp add: list_all_iff)
qed

subsection \<open>A project without source files\<close>

text \<open>
  C8. When the walk hands no error to the callback and every entry is passed over (a
  directory, not a \<^verbatim>\<open>.go\<close> file, below \<^verbatim>\<open>vendor/\<close> or \<^verbatim>\<open>.git/\<close>, an excluded test
  file or a file matching an exclusion pattern), the report of a fresh analyzer has 0
  files analysed, score 0, grade F and the zero value of the trends.
\<close>

theorem empty_project:
  assumes "\<forall>e\<in>set walk. wErr e = None \<and> skipped M opts e"
  shows "\<exists>r. AnalyzeProject M now (New opts eng) walk = Inr r \<and>
              FilesAnalyzed r = 0 \<and> Score r = 0 \<and> Grade r = ''F'' \<and> Trends r = zeroTrends \<and>
              Issues r = []"
proof -
  have "options (New opts eng) = opts"
    by (simp add: New_def)
  with assms have "WalkDir (walkFunc M) walk (New opts eng) = (New opts eng, None)"
    using WalkDir_skipped [of walk M "New opts eng"] by simp
  then obtain r where run: "AnalyzeProject M now (New opts eng) walk = Inr r"
    and r: "Score r = calculateScore (New opts eng)"
      "Grade r = calculateGrade (calculateScore (New opts eng))"
      "Issues r = issues (New opts eng)" "FilesAnalyzed r = filesCount (New opts eng)"
      "Trends r = calculateQualityTrends (New opts eng)"
    using AnalyzeProject_of_run [of M walk "New opts eng" "New opts eng" now] by blast
  have "calculateScore (New opts eng) = 0"
    by (simp add: calculateScore_def New_def)
  moreover have "calculateQualityTrends (New opts eng) = zeroTrends"
    by (simp add: calculateQualityTrends_def New_def Let_def)
  moreover have "calculateGrade 0 = ''F''"
    by (simp add: calculateGrade_def)
  ultimately show ?thesis
    using run r by (simp add: New_def)
qed

theorem empty_project_witness:
  "list_all (\<lambda>e. wErr e = None \<and> skipped noMatch exampleOptions e) emptyWalk \<and>
   (\<exists>r. AnalyzeProject noMatch 0 (New exampleOptions exampleEngine) emptyWalk = Inr r \<and>
        FilesAnalyzed r = 0 \<and> Score r = 0 \<and> Grade r = ''F'' \<and> Trends r = zeroTrends)"
proof -
  have hyp: "\<forall>e\<in>set emptyWalk. wErr e = None \<and> skipped noMatch exampleOptions e"
    by (simp add: emptyWalk_def skipped_def HasSuffix_def exampleOptions_def noMatch_def)
  from empty_project [OF hyp, of 0 exampleEngine] hyp show ?thesis
    by (auto simp add: list_all_iff)
qed

subsection \<open>The standalone analyzer\<close>

text \<open>
  C10. Every report that \<^verbatim>\<open>AnalyzeProject\<close> of \<^verbatim>\<open>main.go\<close> returns has the score 100
  and the grade A, whatever issues were accumulated: the two fields are assigned
  constants, and \<^verbatim>\<open>calculateScore\<close> and \<^verbatim>\<open>calculateGrade\<close> take no part in the report.
\<close>

theorem standalone_score_constant:
  assumes "AnalyzeProject_main ps now ca0 projectPath walk = Inr r"
  shows "Score_main r = 100 \<and> Grade_main r = ''A''"
proof -
  obtain ca res where run: "WalkDir (walkFunc_main ps) walk ca0 = (ca, res)"
    by (cases "WalkDir (walkFunc_main ps) walk ca0")
  with assms have "res = None"
    by (cases res) (simp_all add: AnalyzeProject_main_def)
  with assms run show ?thesis
    by (auto simp add: AnalyzeProject_main_def Let_def)
qed

lemma exampleRun_main:
  "WalkDir (walkFunc_main examplePasses) exampleWalk NewCodeAnalyzer_main
     = (\<lparr>issues = [readErrorIssue ''proj/a.go'' ''open proj/a.go: permission denied'',
                   parseErrorIssue ''proj/b.go'' ''proj/b.go:1:8: expected identifier'',
                   readErrorIssue ''proj/c_test.go'' ''open proj/c_test.go: permission denied''],
         metrics = zeroMetrics\<lparr>LinesOfCode := 2\<rparr>, filesCount = 4\<rparr>, None)"
  by (simp add: exampleWalk_def walkFunc_main_def HasSuffix_def NewCodeAnalyzer_main_def
      analyzeFile_main_def addIssue_main_def Let_def examplePasses_def updateMetrics_main_def
      zeroMetrics_def)

theorem standalone_score_constant_witness:
  "\<exists>r. AnalyzeProject_main examplePasses 0 NewCodeAnalyzer_main ''proj'' exampleWalk = Inr r \<and>
        Score_main r = 100 \<and> Grade_main r = ''A'' \<and>
        countSeverity (Issues_main r) SeverityHigh = 3 \<and>
        calculateScore_main
          (fst (WalkDir (walkFunc_main examplePasses) exampleWalk NewCodeAnalyzer_main)) = 70"
proof -
  have "\<exists>r. AnalyzeProject_main examplePasses 0 NewCodeAnalyzer_main ''proj'' exampleWalk = Inr r \<and>
          countSeverity (Issues_main r) SeverityHigh = 3"
    by (simp add: AnalyzeProject_main_def exampleRun_main Let_def countSeverity_def
        readErrorIssue_def parseErrorIssue_def)
  then obtain r where
    run: "AnalyzeProject_main examplePasses 0 NewCodeAnalyzer_main ''proj'' exampleWalk = Inr r"
    and high: "countSeverity (Issues_main r) SeverityHigh = 3"
    by blast
  have score: "calculateScore_main
      (fst (WalkDir (walkFunc_main examplePasses) exampleWalk NewCodeAnalyzer_main)) = 70"
    by (simp add: exampleRun_main calculateScore_main_def getIssuesSummary_main_def Let_def
        readErrorIssue_def parseErrorIssue_def mapAt_incr mapAt_empty zeroMetrics_def)
  from standalone_score_constant [OF run] run high score show ?thesis
    by blast
qed

text \<open>
  The report of \<^verbatim>\<open>main.go\<close> carries the empty summary map, whatever the issues:
  \<^verbatim>\<open>getIssuesSummary\<close> of \<^verbatim>\<open>main.go\<close> is not called for the report.
\<close>

lemma standalone_summary_empty:
  assumes "AnalyzeProject_main ps now ca0 projectPath walk = Inr r"
  shows "mapAt (IssuesSummary_main r) k = 0"
proof -
  obtain ca res where run: "WalkDir (walkFunc_main ps) walk ca0 = (ca, res)"
    by (cases "WalkDir (walkFunc_main ps) walk ca0")
  with assms have "res = None"
    by (cases res) (simp_all add: AnalyzeProject_main_def)
  with assms run show ?thesis
    by (auto simp add: AnalyzeProject_main_def Let_def mapAt_def)
qed

text \<open>
  Like the analyzer of the package, the standalone analyzer returns a report whenever the
  walk hands no error to the callback, and its \<^verbatim>\<open>calculateScore\<close>, which the report
  does not use, computes the formula of the specification.
\<close>

lemma walkFunc_main_no_error: "wErr e = None \<Longrightarrow> snd (walkFunc_main ps ca e) = None"
  by (simp add: walkFunc_main_def)

lemma WalkDir_main_no_error:
  "\<forall>e\<in>set walk. wErr e = None \<Longrightarrow> snd (WalkDir (walkFunc_main ps) walk ca) = None"
proof (induction walk arbitrary: ca)
  case Nil
  show ?case by simp
next
  case (Cons e es)
  obtain ca' r where step: "walkFunc_main ps ca e = (ca', r)"
    by (cases "walkFunc_main ps ca e")
  have "r = None"
    using walkFunc_main_no_error [of e ps ca] Cons.prems step by simp
  with step Cons show ?case by simp
qed

lemma standalone_no_failure:
  assumes "\<forall>e\<in>set walk. wErr e = None"
  shows "\<exists>r. AnalyzeProject_main ps now ca projectPath walk = Inr r"
proof -
  have "snd (WalkDir (walkFunc_main ps) walk ca) = None"
    using assms by (rule WalkDir_main_no_error)
  then obtain ca' where "WalkDir (walkFunc_main ps) walk ca = (ca', None)"
    by (cases "WalkDir (walkFunc_main ps) walk ca") simp
  then show ?thesis
    by (simp add: AnalyzeProject_main_def Let_def)
qed

lemma mapAt_getIssuesSummary_main:
  "mapAt (getIssuesSummary_main ca) k = countSeverity (issues ca) k + countType (issues ca) k"
  by (simp add: getIssuesSummary_main_def mapAt_summary_fold mapAt_empty)

lemma calculateScore_main_spec:
  assumes "\<forall>i\<in>set (issues ca). validIssue i"
  shows "calculateScore_main ca
           = specScore (issues ca) (CyclomaticComplexity (metrics ca)) (filesCount ca)"
proof -
  have "\<forall>i\<in>set (issues ca). Type i \<noteq> ''high'' \<and> Type i \<noteq> ''medium'' \<and> Type i \<noteq> ''low''"
    using assms by (auto simp: validIssue_def)
  then have h: "mapAt (getIssuesSummary_main ca) ''high'' = countSeverity (issues ca) ''high''"
    and m: "mapAt (getIssuesSummary_main ca) ''medium'' = countSeverity (issues ca) ''medium''"
    and l: "mapAt (getIssuesSummary_main ca) ''low'' = countSeverity (issues ca) ''low''"
    by (simp_all add: mapAt_getIssuesSummary_main countType_zero)
  show ?thesis
    by (simp add: calculateScore_main_def specScore_def Let_def h m l clamp_def max_def)
qed

text \<open>
  C2. The claim is that in every report of a successful project analysis the summary
  entry of each severity label and of each kind label is the number of issues of the
  report with that severity, respectively that type. The analyzer of the package does
  so; \<^verbatim>\<open>AnalyzeProject\<close> of \<^verbatim>\<open>main.go\<close> does not. On a project with two unreadable files
  and one file with a syntax error its report lists three issues of severity high and
  type error, while the summary entries for high and for error read 0; the summary that
  \<^verbatim>\<open>getIssuesSummary\<close> of \<^verbatim>\<open>main.go\<close> computes on the final state has 3 for both.
\<close>

theorem standalone_summary_diverges:
  "\<exists>r. AnalyzeProject_main examplePasses 0 NewCodeAnalyzer_main ''proj'' exampleWalk = Inr r \<and>
        countSeverity (Issues_main r) SeverityHigh = 3 \<and>
        mapAt (IssuesSummary_main r) SeverityHigh = 0 \<and>
        countType (Issues_main r) TypeError = 3 \<and>
        mapAt (IssuesSummary_main r) TypeError = 0 \<and>
        mapAt (getIssuesSummary_main
                 (fst (WalkDir (walkFunc_main examplePasses) exampleWalk NewCodeAnalyzer_main)))
          SeverityHigh = 3 \<and>
        mapAt (getIssuesSummary_main
                 (fst (WalkDir (walkFunc_main examplePasses) exampleWalk NewCodeAnalyzer_main)))
          TypeError = 3"
proof -
  have "\<exists>r. AnalyzeProject_main examplePasses 0 NewCodeAnalyzer_main ''proj'' exampleWalk = Inr r \<and>
          countSeverity (Issues_main r) SeverityHigh = 3 \<and>
          countType (Issues_main r) TypeError = 3"
    by (simp add: AnalyzeProject_main_def exampleRun_main Let_def countSeverity_def
        countType_def readErrorIssue_def parseErrorIssue_def)
  then obtain r where
    run: "AnalyzeProject_main examplePasses 0 NewCodeAnalyzer_main ''proj'' exampleWalk = Inr r"
    and counts: "countSeverity (Issues_main r) SeverityHigh = 3"
      "countType (Issues_main r) TypeError = 3"
    by blast
  have empty: "mapAt (IssuesSummary_main r) SeverityHigh = 0"
    "mapAt (IssuesSummary_main r) TypeError = 0"
    using standalone_summary_empty [OF run] by simp_all
  have computed:
    "mapAt (getIssuesSummary_main
              (fst (WalkDir (walkFunc_main examplePasses) exampleWalk NewCodeAnalyzer_main)))
       SeverityHigh = 3"
    "mapAt (getIssuesSummary_main
              (fst (WalkDir (walkFunc_main examplePasses) exampleWalk NewCodeAnalyzer_main)))
       TypeError = 3"
    by (simp_all add: exampleRun_main getIssuesSummary_main_def readErrorIssue_def
        parseErrorIssue_def mapAt_incr mapAt_empty)
  from run counts empty computed show ?thesis by blast
qed

subsection \<open>Maintainability\<close>

lemma countRule_fold:
  "fold (\<lambda>i count. if Rule i = r then count + 1 else count) xs c = c + countRule xs r"
  by (induction xs arbitrary: c) (simp_all add: countRule_def)

lemma countType_fold:
  "fold (\<lambda>i count. if Type i = t then count + 1 else count) xs c = c + countType xs t"
  by (induction xs arbitrary: c) (simp_all add: countType_def)

text \<open>
  What the analyzer of the package computes: the deduction reads the summary at the key
  \<^verbatim>\<open>missing_documentation\<close>, which holds the issues whose severity or type is that
  string; for issues of the data model there are none, and the index depends on the
  vulnerabilities alone.
\<close>

lemma maintainability_package:
  assumes "\<forall>i\<in>set (issues ca). validIssue i" and "filesCount ca > 0"
  shows "MaintainabilityIndex (calculateQualityTrends ca)
           = max 0 (100 - 5 * real_of_int (countType (issues ca) TypeVulnerability))"
proof -
  have "\<forall>i\<in>set (issues ca). Severity i \<noteq> ''missing_documentation''"
    and "\<forall>i\<in>set (issues ca). Type i \<noteq> ''missing_documentation''"
    using assms(1) by (auto simp: validIssue_def)
  then have "mapAt (getIssuesSummary ca) ''missing_documentation'' = 0"
    by (simp add: mapAt_getIssuesSummary countSeverity_zero countType_zero)
  moreover have "mapAt (getIssuesSummary ca) TypeVulnerability
                   = countType (issues ca) TypeVulnerability"
    using assms(1) by (simp add: summary_type)
  ultimately show ?thesis
    using assms(2) by (simp add: calculateQualityTrends_def Let_def)
qed

text \<open>What \<^verbatim>\<open>main.go\<close> computes: the formula of the specification.\<close>

lemma maintainability_main:
  assumes "filesCount ca > 0"
  shows "MaintainabilityIndex (calculateQualityTrends_main ca) = specMaintainability (issues ca)"
  using assms
  by (simp add: calculateQualityTrends_main_def Let_def specMaintainability_def
      getIssueCountByType_main_def getIssueCountByRule_main_def countRule_fold countType_fold)

text \<open>
  C4. The claim is that, when files were analysed, the maintainability index is 100 minus
  5 per vulnerability and 2 per issue of rule \<^verbatim>\<open>missing_documentation\<close>, not below 0.
  After the scan of one file whose only finding is one undocumented exported function,
  the analyzer of the package reports 100 where the formula gives 98; the function of
  the same name in \<^verbatim>\<open>main.go\<close> gives 98.
\<close>

theorem maintainability_misses_documentation:
  "filesCount undocumented = 1 \<and>
   countRule (issues undocumented) ''missing_documentation'' = 1 \<and>
   specMaintainability (issues undocumented) = 98 \<and>
   MaintainabilityIndex (calculateQualityTrends undocumented) = 100 \<and>
   MaintainabilityIndex (calculateQualityTrends_main undocumented_main) = 98"
  by (simp add: undocumented_def undocumented_main_def missingDocumentationIssue_def
      specMaintainability_def countRule_def countType_def calculateQualityTrends_def
      calculateQualityTrends_main_def getIssuesSummary_def getIssueCountByType_main_def
      getIssueCountByRule_main_def mapAt_incr mapAt_empty Let_def zeroMetrics_def)

subsection \<open>Indentation depth\<close>

text \<open>
  For a line indented with tabs alone the level is the number of tabs. For a line
  indented with spaces alone the level stays between 0 and 3, since the counter is
  replaced by its quarter whenever it reaches a multiple of 4: the threshold of 4 is
  never exceeded.
\<close>

lemma indentLoop_tabs:
  assumes "rest = [] \<or> (hd rest \<noteq> CHR 0x09 \<and> hd rest \<noteq> CHR '' '')"
  shows "indentLoop (replicate n (CHR 0x09) @ rest) l = l + int n"
proof (induction n arbitrary: l)
  case 0
  from assms show ?case by (cases rest) auto
next
  case (Suc n)
  then show ?case by simp
qed

lemma indentLoop_spaces:
  assumes "rest = [] \<or> (hd rest \<noteq> CHR 0x09 \<and> hd rest \<noteq> CHR '' '')"
  shows "0 \<le> l \<Longrightarrow> l \<le> 3 \<Longrightarrow>
           0 \<le> indentLoop (replicate n (CHR '' '') @ rest) l \<and>
           indentLoop (replicate n (CHR '' '') @ rest) l \<le> 3"
proof (induction n arbitrary: l)
  case 0
  from assms 0 show ?case by (cases rest) auto
next
  case (Suc n)
  have "l = 0 \<or> l = 1 \<or> l = 2 \<or> l = 3"
    using Suc.prems by auto
  then show ?case
    using Suc.IH [of "l + 1"] Suc.IH [of 1] by auto
qed

lemma calculateIndentLevel_spaces:
  assumes "rest = [] \<or> (hd rest \<noteq> CHR 0x09 \<and> hd rest \<noteq> CHR '' '')"
  shows "calculateIndentLevel (replicate n (CHR '' '') @ rest) \<le> 3"
  using indentLoop_spaces [OF assms, of 0 n] by (simp add: calculateIndentLevel_def)

text \<open>
  C5. The claim is that the depth of the line of a conditional counts 1 per leading tab
  and 1 per 4 consecutive leading spaces, and that \<^verbatim>\<open>deep_nesting\<close> is reported exactly
  when the depth exceeds 4. On a line of 20 spaces followed by a conditional the depth of
  the claim is 5, the code computes 2 and reports nothing; on a line of 4 tabs and one
  space the depth of the claim is 4, the code computes 5 and reports the issue.
\<close>

theorem indent_level_diverges:
  "specIndentDepth spacesLine = 5 \<and>
   calculateIndentLevel spacesLine = 2 \<and>
   checkDeepNesting ''f.go'' (Node IfStmt (Position 1 21) []) spacesLine = Some [] \<and>
   specIndentDepth tabsSpaceLine = 4 \<and>
   calculateIndentLevel tabsSpaceLine = 5 \<and>
   map_option (map Rule)
     (checkDeepNesting ''f.go'' (Node IfStmt (Position 1 6) []) tabsSpaceLine)
     = Some [''deep_nesting'']"
proof -
  have a: "specIndentDepth spacesLine = 5"
    by (simp add: specIndentDepth_def spacesLine_def)
  have b: "calculateIndentLevel spacesLine = 2"
    by (simp add: calculateIndentLevel_def spacesLine_def)
  have s: "Split spacesLine = [spacesLine]"
    by (simp add: spacesLine_def)
  have c: "checkDeepNesting ''f.go'' (Node IfStmt (Position 1 21) []) spacesLine = Some []"
    by (simp add: checkDeepNesting_def Let_def s b)
  have d: "specIndentDepth tabsSpaceLine = 4"
    by (simp add: specIndentDepth_def tabsSpaceLine_def)
  have e: "calculateIndentLevel tabsSpaceLine = 5"
    by (simp add: calculateIndentLevel_def tabsSpaceLine_def)
  have t: "Split tabsSpaceLine = [tabsSpaceLine]"
    by (simp add: tabsSpaceLine_def)
  have f: "map_option (map Rule)
             (checkDeepNesting ''f.go'' (Node IfStmt (Position 1 6) []) tabsSpaceLine)
             = Some [''deep_nesting'']"
    by (simp add: checkDeepNesting_def Let_def t e)
  from a b c d e f show ?thesis by blast
qed

subsection \<open>Complexity of a file\<close>

text \<open>
  The traversal with the counting callback adds the number of branching nodes of the
  subtrees it visits.
\<close>

lemma fold_Inspect_countNode_aux:
  assumes "\<And>n c. n \<in> set ns \<Longrightarrow>
             Inspect countNode n c = c + int (length (filter Q (nodesOf n)))"
  shows "fold (Inspect countNode) ns c
           = c + int (length (filter Q (concat (map nodesOf ns))))"
  using assms by (induction ns arbitrary: c) simp_all

lemma Inspect_countNode:
  "Inspect countNode n c = c + int (length (filter (\<lambda>m. isBranching (kind m)) (nodesOf n)))"
proof (induction n arbitrary: c)
  case (Node k p cs)
  have step: "countNode (Node k p cs) c = c + (if isBranching k then 1 else 0)"
    by (cases k) (simp_all add: isBranching_def countNode_def)
  have "fold (Inspect countNode) cs (countNode (Node k p cs) c)
          = countNode (Node k p cs) c
            + int (length (filter (\<lambda>m. isBranching (kind m)) (concat (map nodesOf cs))))"
    using Node.IH by (rule fold_Inspect_countNode_aux)
  with step show ?case by simp
qed

lemma fold_Inspect_countNode: "fold (Inspect countNode) ns c = c + branchingCount ns"
  unfolding branchingCount_def
  by (rule fold_Inspect_countNode_aux) (rule Inspect_countNode)

lemma calculateComplexity_count: "calculateComplexity fn = 1 + branchingCount (declNodes fn)"
  by (simp add: calculateComplexity_def fold_Inspect_countNode)

lemma decl_step:
  "fold (Inspect countNode) (declNodes d)
     (case d of FuncDecl name p sig body \<Rightarrow> c + 1 | GenDecl p ns \<Rightarrow> c)
     = c + (if isFuncDecl d then calculateComplexity d else branchingCount (declNodes d))"
  by (cases d)
    (simp_all add: fold_Inspect_countNode calculateComplexity_count del: declNodes.simps)

lemma fold_add: "fold (\<lambda>d c. c + g d) ds (c :: int) = c + sum_list (map g ds)"
  by (induction ds arbitrary: c) simp_all

lemma sum_list_split:
  "sum_list (map (\<lambda>d. if Q d then f d else h d) ds)
     = sum_list (map f (filter Q ds)) + (sum_list (map h (filter (\<lambda>d. \<not> Q d) ds)) :: int)"
  by (induction ds) simp_all

lemma fold_decls:
  "fold (\<lambda>d complexity.
           fold (Inspect countNode) (declNodes d)
             (case d of FuncDecl name p sig body \<Rightarrow> complexity + 1
                      | GenDecl p ns \<Rightarrow> complexity)) ds c
     = c + sum_list (map calculateComplexity (filter isFuncDecl ds))
         + sum_list (map (\<lambda>d. branchingCount (declNodes d)) (filter (\<lambda>d. \<not> isFuncDecl d) ds))"
proof -
  have "(\<lambda>d complexity.
           fold (Inspect countNode) (declNodes d)
             (case d of FuncDecl name p sig body \<Rightarrow> complexity + 1
                      | GenDecl p ns \<Rightarrow> complexity))
        = (\<lambda>d c. c + (if isFuncDecl d then calculateComplexity d
                        else branchingCount (declNodes d)))"
    by (intro ext) (rule decl_step)
  then show ?thesis
    by (simp only: fold_add sum_list_split add.assoc)
qed

lemma literal_values:
  "calculateFileComplexity literalFile = 1 \<and> perFunctionSum literalFile = 0 \<and>
   branchingOutside literalFile = 1"
  by (simp add: literalFile_def calculateFileComplexity_def perFunctionSum_def countNode_def
      branchingOutside_def branchingCount_def isBranching_def)

text \<open>
  C6, as stated: the complexity that the analyzer adds for a parsed file is the sum, over
  the function declarations of the file, of the complexity of the complexity rule. It
  fails for a file whose only conditional is in a function literal of a package-level
  variable: the analyzer adds 1, the sum over the function declarations is 0.
\<close>

theorem file_complexity_counterexample:
  "calculateFileComplexity literalFile \<noteq> perFunctionSum literalFile"
  by (simp add: literal_values)

text \<open>
  C6, amended. The complexity that the analyzer adds to the cumulative metrics for a
  parsed file is the sum, over the function declarations of the file, of the complexity
  of the complexity rule (1 plus the number of branching nodes below the declaration),
  plus the number of branching nodes that lie outside every function declaration.
\<close>

theorem file_complexity_decomposition:
  "calculateFileComplexity file = perFunctionSum file + branchingOutside file \<and>
   calculateComplexity fn = 1 + branchingCount (declNodes fn) \<and>
   CyclomaticComplexity (metrics (analyzeFile ca p (Parsed content file)))
     = CyclomaticComplexity (metrics ca) + (perFunctionSum file + branchingOutside file)"
proof -
  have fc: "calculateFileComplexity file = perFunctionSum file + branchingOutside file"
    unfolding calculateFileComplexity_def fold_decls
    by (simp add: fold_Inspect_countNode perFunctionSum_def branchingOutside_def)
  have "CyclomaticComplexity (metrics (analyzeFile ca p (Parsed content file)))
          = CyclomaticComplexity (metrics ca) + calculateFileComplexity file"
    by (simp add: analyzeFile_def updateMetrics_def Let_def)
  with fc calculateComplexity_count show ?thesis by simp
qed

subsection \<open>Suppression of false positives in the security rule\<close>

lemma Contains_comment_isFalsePositive:
  "Contains line ''//'' \<or> Contains line ''/*'' \<Longrightarrow> isFalsePositive L line"
  by (simp add: isFalsePositive_def Let_def)

lemma checkHardcodedSecrets_suppressed:
  "isFalsePositive L line \<Longrightarrow> checkHardcodedSecrets M L file n line = []"
  by (auto simp add: checkHardcodedSecrets_def split_def)

lemma concat_map_if:
  "concat (map (\<lambda>x. if Q x then [v] else []) xs) = map (\<lambda>x. v) (filter Q xs)"
  by (induction xs) simp_all

lemma checkSQLInjection_filter:
  "checkSQLInjection M file n line
     = map (\<lambda>pattern. sqlIssue file n) (filter (\<lambda>pattern. M pattern line) sqlPatterns)"
  unfolding checkSQLInjection_def by (rule concat_map_if)

lemma checkHardcodedSecrets_rule:
  "i \<in> set (checkHardcodedSecrets M L file n line) \<Longrightarrow> Rule i = ''hardcoded_secret''"
  by (auto simp add: checkHardcodedSecrets_def secretIssue_def split: if_splits)

text \<open>
  C9. The suppression of false positives (the placeholder list and the comment test of
  \<^verbatim>\<open>isFalsePositive\<close>) applies to the detection of hardcoded secrets only. A line on
  which \<^verbatim>\<open>isFalsePositive\<close> holds, in particular every line that contains \<^verbatim>\<open>//\<close> or
  \<^verbatim>\<open>/*\<close> anywhere, yields no \<^verbatim>\<open>hardcoded_secret\<close> issue. The detection of SQL
  injection does not consult it: every SQL pattern that matches a line yields a
  \<^verbatim>\<open>sql_injection\<close> issue, one per matching pattern, on such lines as on all others.
  This holds for every matcher \<open>M\<close> and every lower-casing function \<open>L\<close>.
\<close>

theorem suppression_only_for_secrets:
  "(isFalsePositive L line \<longrightarrow> checkHardcodedSecrets M L file n line = []) \<and>
   (Contains line ''//'' \<or> Contains line ''/*'' \<longrightarrow> checkHardcodedSecrets M L file n line = []) \<and>
   (\<forall>pattern\<in>set sqlPatterns. M pattern line \<longrightarrow>
      sqlIssue file n \<in> set (checkSQLInjection M file n line)) \<and>
   length (checkSQLInjection M file n line)
      = length (filter (\<lambda>pattern. M pattern line) sqlPatterns) \<and>
   (\<forall>i\<in>set (checkSQLInjection M file n line). Rule i = ''sql_injection'') \<and>
   (\<forall>i\<in>set (checkHardcodedSecrets M L file n line). Rule i = ''hardcoded_secret'')"
proof -
  have "\<forall>i\<in>set (checkHardcodedSecrets M L file n line). Rule i = ''hardcoded_secret''"
    using checkHardcodedSecrets_rule by blast
  moreover have "\<forall>i\<in>set (checkSQLInjection M file n line). Rule i = ''sql_injection''"
    by (auto simp add: checkSQLInjection_filter sqlIssue_def)
  ultimately show ?thesis
    by (auto simp add: checkSQLInjection_filter checkHardcodedSecrets_suppressed
        Contains_comment_isFalsePositive)
qed

lemma exampleLine_comment: "Contains exampleLine ''//''"
  by (simp add: exampleLine_def)

lemma exampleLine_placeholder: "Contains (asciiToLower exampleLine) ''password=\"test\"''"
  by (simp add: exampleLine_def asciiToLower_def lowerChar_def)

lemma exampleMatcher_sql: "hd sqlPatterns \<in> set sqlPatterns \<and> exampleMatcher (hd sqlPatterns) exampleLine"
  by (simp add: exampleMatcher_def sqlPatterns_def)

lemma exampleMatcher_secret:
  "exampleMatcher (fst (hd secretPatterns)) exampleLine"
  by (simp add: exampleMatcher_def)

theorem suppression_only_for_secrets_witness:
  "isFalsePositive asciiToLower exampleLine \<and> Contains exampleLine ''//'' \<and>
   exampleMatcher (fst (hd secretPatterns)) exampleLine \<and>
   exampleMatcher (hd sqlPatterns) exampleLine \<and>
   checkHardcodedSecrets exampleMatcher asciiToLower ''q.go'' 7 exampleLine = [] \<and>
   sqlIssue ''q.go'' 7 \<in> set (checkSQLInjection exampleMatcher ''q.go'' 7 exampleLine)"
proof -
  note inst = suppression_only_for_secrets [of asciiToLower exampleLine exampleMatcher "''q.go''" 7]
  have fp: "isFalsePositive asciiToLower exampleLine"
    using exampleLine_comment by (simp add: Contains_comment_isFalsePositive)
  have "checkHardcodedSecrets exampleMatcher asciiToLower ''q.go'' 7 exampleLine = []"
    using inst fp by blast
  moreover have "sqlIssue ''q.go'' 7 \<in> set (checkSQLInjection exampleMatcher ''q.go'' 7 exampleLine)"
    using inst exampleMatcher_sql by blast
  ultimately show ?thesis
    using fp exampleLine_comment exampleMatcher_sql exampleMatcher_secret by blast
qed

end
